theory Spec2Isabelle
  imports Complex_Main
begin

section \<open>Python values and exceptions\<close>

text \<open>
  The exceptions the modelled code can raise. A function that can raise returns
  either \<open>exn + 'a\<close> (when the caller loses the object) or a pair of an optional
  exception and the state the object is left in.
\<close>

datatype exn = TypeError | ValueError | KeyError | IndexError | AttributeError
  | NotImplementedError | ZeroDivisionError | OverflowError

text \<open>
  A finite-element function of the wrapped library, reduced to what the exports read:
  an identity and the mesh of its function space.
\<close>

record fem_function =
  fn_id :: nat
  fn_mesh :: nat

text \<open>A function space: its mesh, element family and degree.\<close>

record function_space =
  fs_mesh :: nat
  fs_family :: string
  fs_degree :: nat

datatype test_fn = TestFunction function_space

text \<open>
  A \<open>festim.Species\<close> object: its name and the attributes the code at hand assigns
  or reads, \<open>None\<close> until assigned. For the XDMF export, species are objects shared
  between the model and its exports, so the export holds references and the
  objects live in a heap.
\<close>

record species_obj =
  sp_name :: string
  solution :: "fem_function option"
  prev_solution :: "fem_function option"
  test_function :: "test_fn option"
  post_processing_solution :: "fem_function option"

type_synonym heap = "nat \<Rightarrow> species_obj option"

text \<open>Values handed to the \<open>field\<close> setter. \<open>Species r\<close> is a reference to a Species object.\<close>

datatype pyval = Species nat | PyInt int | PyStr string | PyNone | PyList "pyval list"

section \<open>festim/exports/xdmf.py\<close>

datatype writer_op = WriteMesh nat | WriteFunction fem_function real

text \<open>
  \<open>x_field\<close> is \<open>None\<close> while \<open>_field\<close> has not been assigned (inside \<open>__init__\<close>);
  \<open>x_writer\<close> is \<open>None\<close> for \<open>_writer = None\<close> and otherwise the calls the XDMFFile
  has received, oldest first.
\<close>

record XDMFExport =
  x_filename :: string
  x_field :: "pyval list option"
  x_mesh_written :: bool
  x_writer :: "writer_op list option"

fun isinstance_Species :: "pyval \<Rightarrow> bool" where
  "isinstance_Species (Species r) = True"
| "isinstance_Species v = False"

text \<open>The loop of the setter over the elements of a list: the first non-Species raises.\<close>

fun check_elements :: "pyval list \<Rightarrow> exn option" where
  "check_elements [] = None"
| "check_elements (element # rest) =
     (if \<not> isinstance_Species element then Some TypeError else check_elements rest)"

fun field_setter :: "pyval \<Rightarrow> XDMFExport \<Rightarrow> exn option \<times> XDMFExport" where
  "field_setter (PyList value) x =
     (case check_elements value of
        Some e \<Rightarrow> (Some e, x)
      | None \<Rightarrow> (None, x\<lparr>x_field := Some value\<rparr>))"
| "field_setter (Species r) x = (None, x\<lparr>x_field := Some [Species r]\<rparr>)"
| "field_setter v x = (Some TypeError, x)"

text \<open>
  \<open>__init__\<close>. The base class \<open>ExportBaseClass\<close> is not part of the sources at hand;
  its constructor is the parameter \<open>base_init\<close>, which either raises or yields the
  stored file name.
\<close>

definition XDMFExport_init ::
  "(pyval \<Rightarrow> exn + string) \<Rightarrow> pyval \<Rightarrow> pyval \<Rightarrow> exn + XDMFExport" where
  "XDMFExport_init base_init filename field =
     (case base_init filename of
        Inl e \<Rightarrow> Inl e
      | Inr fname \<Rightarrow>
          (case field_setter field
                  \<lparr>x_filename = fname, x_field = None, x_mesh_written = False, x_writer = None\<rparr> of
             (Some e, x) \<Rightarrow> Inl e
           | (None, x) \<Rightarrow> Inr (x\<lparr>x_mesh_written := False\<rparr>)))"

definition define_writer :: "XDMFExport \<Rightarrow> XDMFExport" where
  "define_writer x = x\<lparr>x_writer := Some []\<rparr>"

text \<open>The first statement of \<open>write\<close>: the mesh of the first field's solution.\<close>

definition write_mesh_once :: "heap \<Rightarrow> XDMFExport \<Rightarrow> exn option \<times> XDMFExport" where
  "write_mesh_once h x =
     (if x_mesh_written x then (None, x)
      else
        (case x_writer x of
           None \<Rightarrow> (Some AttributeError, x)
         | Some ops \<Rightarrow>
             (case x_field x of
                None \<Rightarrow> (Some AttributeError, x)
              | Some [] \<Rightarrow> (Some IndexError, x)
              | Some (Species r # rest) \<Rightarrow>
                  (case h r of
                     None \<Rightarrow> (Some AttributeError, x)
                   | Some s \<Rightarrow>
                       (case post_processing_solution s of
                          None \<Rightarrow> (Some AttributeError, x)
                        | Some u \<Rightarrow>
                            (None, x\<lparr>x_writer := Some (ops @ [WriteMesh (fn_mesh u)]),
                                     x_mesh_written := True\<rparr>)))
              | Some (v # rest) \<Rightarrow> (Some AttributeError, x))))"

text \<open>
  The loop of \<open>write\<close> over the fields. The library rejects a solution that is
  \<open>None\<close> with a TypeError.
\<close>

fun write_loop :: "pyval list \<Rightarrow> real \<Rightarrow> heap \<Rightarrow> XDMFExport \<Rightarrow> exn option \<times> XDMFExport" where
  "write_loop [] t h x = (None, x)"
| "write_loop (field # rest) t h x =
     (case x_writer x of
        None \<Rightarrow> (Some AttributeError, x)
      | Some ops \<Rightarrow>
          (case field of
             Species r \<Rightarrow>
               (case h r of
                  None \<Rightarrow> (Some AttributeError, x)
                | Some s \<Rightarrow>
                    (case post_processing_solution s of
                       None \<Rightarrow> (Some TypeError, x)
                     | Some u \<Rightarrow>
                         write_loop rest t h (x\<lparr>x_writer := Some (ops @ [WriteFunction u t])\<rparr>)))
           | _ \<Rightarrow> (Some AttributeError, x)))"

definition xdmf_write :: "real \<Rightarrow> heap \<Rightarrow> XDMFExport \<Rightarrow> exn option \<times> XDMFExport" where
  "xdmf_write t h x =
     (case write_mesh_once h x of
        (Some e, x') \<Rightarrow> (Some e, x')
      | (None, x') \<Rightarrow>
          (case x_field x' of
             None \<Rightarrow> (Some AttributeError, x')
           | Some fs \<Rightarrow> write_loop fs t h x'))"

text \<open>
  A sequence of calls \<open>write(t)\<close>; between calls the solutions of the species may
  have been reassigned, so every call comes with the heap it runs in. The first
  exception ends the sequence.
\<close>

fun xdmf_writes :: "(real \<times> heap) list \<Rightarrow> XDMFExport \<Rightarrow> exn option \<times> XDMFExport" where
  "xdmf_writes [] x = (None, x)"
| "xdmf_writes ((t, h) # calls) x =
     (case xdmf_write t h x of
        (Some e, x') \<Rightarrow> (Some e, x')
      | (None, x') \<Rightarrow> xdmf_writes calls x')"

text \<open>What is observed of the writer: the solution a listed field has in a heap.\<close>

fun solution_of :: "heap \<Rightarrow> pyval \<Rightarrow> fem_function option" where
  "solution_of h (Species r) = (case h r of None \<Rightarrow> None | Some s \<Rightarrow> post_processing_solution s)"
| "solution_of h v = None"

definition has_solution :: "heap \<Rightarrow> pyval \<Rightarrow> bool" where
  "has_solution h v = (solution_of h v \<noteq> None)"

definition field_writes :: "pyval list \<Rightarrow> real \<times> heap \<Rightarrow> writer_op list" where
  "field_writes fs = (\<lambda>(t, h). map (\<lambda>v. WriteFunction (the (solution_of h v)) t) fs)"

fun is_WriteMesh :: "writer_op \<Rightarrow> bool" where
  "is_WriteMesh (WriteMesh m) = True"
| "is_WriteMesh (WriteFunction u t) = False"

text \<open>
  The inputs the setter accepts, in the words of its comment: a Species or a list of
  Species; and the list such an input stands for.
\<close>

fun accepted_field :: "pyval \<Rightarrow> bool" where
  "accepted_field (Species r) = True"
| "accepted_field (PyList vs) = list_all isinstance_Species vs"
| "accepted_field v = False"

fun as_species_list :: "pyval \<Rightarrow> pyval list" where
  "as_species_list (PyList vs) = vs"
| "as_species_list v = [v]"

text \<open>A species with a solution on mesh 7, and an export of it, for concrete runs.\<close>

definition example_heap :: heap where
  "example_heap = (\<lambda>r. if r = 0 then
      Some \<lparr>sp_name = ''H'', solution = None, prev_solution = None, test_function = None,
        post_processing_solution = Some \<lparr>fn_id = 1, fn_mesh = 7\<rparr>\<rparr> else None)"

definition example_base_init :: "pyval \<Rightarrow> exn + string" where
  "example_base_init v = (case v of PyStr s \<Rightarrow> Inr s | _ \<Rightarrow> Inl TypeError)"

definition example_export :: XDMFExport where
  "example_export = \<lparr>x_filename = ''test.xdmf'', x_field = Some [Species 0],
     x_mesh_written = False, x_writer = None\<rparr>"

section \<open>Decimal representation of integers\<close>

text \<open>Python's \<open>str\<close> on an \<open>int\<close>, as the titles and headers of the exports use it.\<close>

definition digit_char :: "nat \<Rightarrow> char" where
  "digit_char n = ''0123456789'' ! n"

function str_nat :: "nat \<Rightarrow> string" where
  "str_nat n = (if n < 10 then [digit_char n] else str_nat (n div 10) @ [digit_char (n mod 10)])"
  by pat_completeness auto
termination
  by (relation "measure id") auto

declare str_nat.simps [simp del]

definition str_int :: "int \<Rightarrow> string" where
  "str_int i = (if i < 0 then CHR ''-'' # str_nat (nat (- i)) else str_nat (nat i))"

section \<open>festim/exports/surface_quantity.py\<close>

text \<open>
  The setters of \<open>surface\<close> and \<open>field\<close> accept an \<open>int\<close> besides a
  \<open>SurfaceSubdomain1D\<close>, and a \<open>str\<close> besides a \<open>Species\<close>; \<open>write\<close> reads
  \<open>surface.id\<close> and \<open>field.name\<close>, which only the objects have.
\<close>

record SurfaceSubdomain1D =
  s_id :: int
  s_x :: real


datatype field_attr = FieldSpecies species_obj | FieldStr string

text \<open>
  A CSV file is the list of the rows handed to \<open>csv.writer.writerow\<close>, a row the
  list of its cells; the file system maps a name to the rows of the file, \<open>None\<close>
  when there is no such file.
\<close>

datatype cell = CStr string | CNum real












section \<open>festim/hydrogen_transport_problem.py\<close>

record Material =
  D_0 :: real
  E_D :: real
  m_name :: string

record VolumeSubdomain1D =
  v_id :: int
  v_borders :: "real \<times> real"
  v_material :: Material

datatype subdomain = Surface1D SurfaceSubdomain1D | Volume1D VolumeSubdomain1D | OtherSubdomain int

record Mesh =
  mesh_id :: nat
  topology_dim :: nat
  num_cells :: nat

datatype source = Source nat

text \<open>Mesh tags as \<open>dolfinx.mesh.meshtags\<close> receives them: entity indices and their values.\<close>

record meshtags =
  mt_dim :: int
  mt_indices :: "nat list"
  mt_values :: "int list"

datatype measure_kind = Ds | Dx

record measure =
  ms_kind :: measure_kind
  ms_domain :: nat
  ms_subdomain_data :: meshtags

text \<open>
  A variational form is the sum of its integrals, in the order they were added;
  \<open>DiffusionTerm D u v\<close> is \<open>dot(D * grad(u), grad(v))\<close> and \<open>TransientTerm u u_n dt v\<close>
  is \<open>((u - u_n) / dt) * v\<close>.
\<close>

datatype 'c integrand =
    DiffusionTerm 'c fem_function test_fn
  | TransientTerm fem_function fem_function real test_fn

datatype 'c integral = Integral "'c integrand" measure int

text \<open>
  The methods of the subdomain and material classes are not among the sources at
  hand; they are parameters. \<open>get_diffusion_coefficient\<close> may raise (it computes with
  the temperature).
\<close>

record 'c fem_library =
  locate_dof :: "SurfaceSubdomain1D \<Rightarrow> function_space \<Rightarrow> nat"
  locate_subdomain_entities :: "VolumeSubdomain1D \<Rightarrow> Mesh \<Rightarrow> nat \<Rightarrow> nat list"
  get_diffusion_coefficient :: "Material \<Rightarrow> Mesh \<Rightarrow> real option \<Rightarrow> exn + 'c"

text \<open>
  The problem object. \<open>p_next_id\<close> numbers the Function objects created so far: each
  \<open>Function(V)\<close> is a new object.
\<close>

record 'c HydrogenTransportProblem =
  p_mesh :: "Mesh option"
  p_subdomains :: "subdomain list"
  p_species :: "species_obj list"
  p_temperature :: "real option"
  p_sources :: "source list"
  p_dx :: "measure option"
  p_ds :: "measure option"
  p_function_space :: "function_space option"
  p_facet_meshtags :: "meshtags option"
  p_volume_meshtags :: "meshtags option"
  p_formulation :: "'c integral list option"
  p_volume_subdomains :: "VolumeSubdomain1D list"
  p_dt :: "real option"
  p_next_id :: nat

text \<open>The volume and surface subdomains among the listed subdomains.\<close>

fun volumes_of :: "subdomain list \<Rightarrow> VolumeSubdomain1D list" where
  "volumes_of [] = []"
| "volumes_of (Volume1D v # rest) = v # volumes_of rest"
| "volumes_of (s # rest) = volumes_of rest"


definition define_function_space ::
  "'c HydrogenTransportProblem \<Rightarrow> exn + 'c HydrogenTransportProblem" where
  "define_function_space p =
     (case p_mesh p of
        None \<Rightarrow> Inl AttributeError
      | Some m \<Rightarrow>
          Inr (p\<lparr>p_function_space := Some \<lparr>fs_mesh = mesh_id m, fs_family = ''CG'', fs_degree = 1\<rparr>\<rparr>))"

definition in_int32 :: "int \<Rightarrow> bool" where
  "in_int32 i = (- (2 ^ 31) \<le> i \<and> i < 2 ^ 31)"

text \<open>
  Storing a Python \<open>int\<close> in an array of 32-bit integers, as numpy 1 does it (the
  numpy of the library this module is written against): a value that fits a C
  \<open>long\<close> of 64 bits is cast to 32 bits, keeping its low 32 bits, so that a value
  outside the 32-bit range wraps around; a larger one raises OverflowError.
\<close>

definition wrap_int32 :: "int \<Rightarrow> int" where
  "wrap_int32 i = (i + 2 ^ 31) mod 2 ^ 32 - 2 ^ 31"

definition to_int32 :: "int \<Rightarrow> exn + int" where
  "to_int32 i = (if - (2 ^ 63) \<le> i \<and> i < 2 ^ 63 then Inr (wrap_int32 i) else Inl OverflowError)"

text \<open>\<open>np.array(xs, dtype=np.int32)\<close> on a list of Python \<open>int\<close>s.\<close>

fun array_int32 :: "int list \<Rightarrow> exn + int list" where
  "array_int32 [] = Inr []"
| "array_int32 (x # xs) =
     (case to_int32 x of
        Inl e \<Rightarrow> Inl e
      | Inr y \<Rightarrow> (case array_int32 xs of Inl e \<Rightarrow> Inl e | Inr ys \<Rightarrow> Inr (y # ys)))"

text \<open>\<open>tags[entities] = value\<close> on a numpy array, the indices in range.\<close>

definition assign_entities :: "int list \<Rightarrow> nat list \<Rightarrow> int \<Rightarrow> int list" where
  "assign_entities tags entities value = fold (\<lambda>c ts. ts[c := value]) entities tags"

record marker_acc =
  dofs_facets :: "nat list"
  tags_facets :: "int list"
  tags_volumes :: "int list"
  acc_volume_subdomains :: "VolumeSubdomain1D list"

text \<open>
  The loop of \<open>define_markers_and_measures\<close> over the subdomains. The array of the
  volume tags holds 32-bit integers; an entity index outside the array is an
  IndexError. The dof that \<open>locate_dof\<close> returns is a 32-bit integer of the library.
\<close>

fun mark_subdomains ::
  "'c fem_library \<Rightarrow> Mesh \<Rightarrow> function_space option \<Rightarrow> subdomain list \<Rightarrow> marker_acc
     \<Rightarrow> exn + marker_acc" where
  "mark_subdomains L m V [] acc = Inr acc"
| "mark_subdomains L m V (Surface1D s # rest) acc =
     (case V of
        None \<Rightarrow> Inl AttributeError
      | Some V' \<Rightarrow>
          mark_subdomains L m V rest
            (acc\<lparr>dofs_facets := dofs_facets acc @ [locate_dof L s V'],
                 tags_facets := tags_facets acc @ [s_id s]\<rparr>))"
| "mark_subdomains L m V (Volume1D v # rest) acc =
     (let entities = locate_subdomain_entities L v m (topology_dim m) in
      if \<not> list_all (\<lambda>c. c < length (tags_volumes acc)) entities then Inl IndexError
      else
        (case to_int32 (v_id v) of
           Inl e \<Rightarrow> Inl e
         | Inr tag \<Rightarrow>
             mark_subdomains L m V rest
               (acc\<lparr>acc_volume_subdomains := acc_volume_subdomains acc @ [v],
                    tags_volumes := assign_entities (tags_volumes acc) entities tag\<rparr>)))"
| "mark_subdomains L m V (OtherSubdomain i # rest) acc = mark_subdomains L m V rest acc"

definition define_markers_and_measures ::
  "'c fem_library \<Rightarrow> 'c HydrogenTransportProblem \<Rightarrow> exn + 'c HydrogenTransportProblem" where
  "define_markers_and_measures L p =
     (case p_mesh p of
        None \<Rightarrow> Inl AttributeError
      | Some m \<Rightarrow>
          (let fdim = int (topology_dim m) - 1;
               vdim = topology_dim m;
               mesh_cell_indices = [0..<num_cells m]
           in case mark_subdomains L m (p_function_space p) (p_subdomains p)
                     \<lparr>dofs_facets = [], tags_facets = [],
                      tags_volumes = replicate (num_cells m) 0,
                      acc_volume_subdomains = p_volume_subdomains p\<rparr> of
                Inl e \<Rightarrow> Inl e
              | Inr acc \<Rightarrow>
                  (case array_int32 (tags_facets acc) of
                     Inl e \<Rightarrow> Inl e
                   | Inr tags_facets32 \<Rightarrow>
                       (let facet_tags = \<lparr>mt_dim = fdim, mt_indices = dofs_facets acc,
                                           mt_values = tags_facets32\<rparr>;
                            volume_tags = \<lparr>mt_dim = int vdim, mt_indices = mesh_cell_indices,
                                            mt_values = tags_volumes acc\<rparr>
                        in Inr (p\<lparr>p_volume_subdomains := acc_volume_subdomains acc,
                                 p_facet_meshtags := Some facet_tags,
                                 p_volume_meshtags := Some volume_tags,
                                 p_ds := Some \<lparr>ms_kind = Ds, ms_domain = mesh_id m,
                                               ms_subdomain_data = facet_tags\<rparr>,
                                 p_dx := Some \<lparr>ms_kind = Dx, ms_domain = mesh_id m,
                                               ms_subdomain_data = volume_tags\<rparr>\<rparr>)))))"

text \<open>
  \<open>assign_functions_to_species\<close>: two new Function objects and a test function for
  each species, after the guard on the number of species.
\<close>

fun assign_loop :: "function_space \<Rightarrow> nat \<Rightarrow> species_obj list \<Rightarrow> species_obj list \<times> nat" where
  "assign_loop V n [] = ([], n)"
| "assign_loop V n (spe # rest) =
     (let spe' = spe\<lparr>solution := Some \<lparr>fn_id = n, fn_mesh = fs_mesh V\<rparr>,
                     prev_solution := Some \<lparr>fn_id = n + 1, fn_mesh = fs_mesh V\<rparr>,
                     test_function := Some (TestFunction V)\<rparr>;
          (rest', n') = assign_loop V (n + 2) rest
      in (spe' # rest', n'))"

definition assign_functions_to_species ::
  "'c HydrogenTransportProblem \<Rightarrow> exn + 'c HydrogenTransportProblem" where
  "assign_functions_to_species p =
     (if length (p_species p) > 1 then Inl NotImplementedError
      else if p_species p = [] then Inr p
      else
        (case p_function_space p of
           None \<Rightarrow> Inl AttributeError
         | Some V \<Rightarrow>
             (let (sps, n) = assign_loop V (p_next_id p) (p_species p)
              in Inr (p\<lparr>p_species := sps, p_next_id := n\<rparr>))))"

text \<open>
  The two loops of \<open>create_formulation\<close>. The form operators of the library reject
  a \<open>None\<close> operand, and a measure that is \<open>None\<close> cannot be called.
\<close>

fun volume_loop ::
  "'c fem_library \<Rightarrow> Mesh \<Rightarrow> real option \<Rightarrow> measure option \<Rightarrow> real \<Rightarrow> species_obj
     \<Rightarrow> VolumeSubdomain1D list \<Rightarrow> 'c integral list \<Rightarrow> exn + 'c integral list" where
  "volume_loop L m T dx_measure dt spe [] form = Inr form"
| "volume_loop L m T dx_measure dt spe (vol # rest) form =
     (case get_diffusion_coefficient L (v_material vol) m T of
        Inl e \<Rightarrow> Inl e
      | Inr D \<Rightarrow>
          (case (solution spe, prev_solution spe, test_function spe, dx_measure) of
             (Some u, Some u_n, Some v, Some dx') \<Rightarrow>
               volume_loop L m T dx_measure dt spe rest
                 (form @ [Integral (DiffusionTerm D u v) dx' (v_id vol),
                          Integral (TransientTerm u u_n dt v) dx' (v_id vol)])
           | _ \<Rightarrow> Inl TypeError))"

fun species_loop ::
  "'c fem_library \<Rightarrow> Mesh \<Rightarrow> real option \<Rightarrow> measure option \<Rightarrow> real \<Rightarrow> VolumeSubdomain1D list
     \<Rightarrow> species_obj list \<Rightarrow> 'c integral list \<Rightarrow> exn + 'c integral list" where
  "species_loop L m T dx_measure dt vols [] form = Inr form"
| "species_loop L m T dx_measure dt vols (spe # rest) form =
     (case volume_loop L m T dx_measure dt spe vols form of
        Inl e \<Rightarrow> Inl e
      | Inr form' \<Rightarrow> species_loop L m T dx_measure dt vols rest form')"

definition create_formulation ::
  "'c fem_library \<Rightarrow> 'c HydrogenTransportProblem \<Rightarrow> exn + 'c HydrogenTransportProblem" where
  "create_formulation L p =
     (if length (p_sources p) > 1 then Inl NotImplementedError
      else if length (p_species p) > 1 then Inl NotImplementedError
      else
        (case p_mesh p of
           None \<Rightarrow> Inl AttributeError
         | Some m \<Rightarrow>
             (let dt = 1 / 20 in
              case species_loop L m (p_temperature p) (p_dx p) dt (p_volume_subdomains p)
                     (p_species p) [] of
                Inl e \<Rightarrow> Inl e
              | Inr form \<Rightarrow> Inr (p\<lparr>p_dt := Some dt, p_formulation := Some form\<rparr>))))"

definition initialise ::
  "'c fem_library \<Rightarrow> 'c HydrogenTransportProblem \<Rightarrow> exn + 'c HydrogenTransportProblem" where
  "initialise L p =
     (case define_function_space p of
        Inl e \<Rightarrow> Inl e
      | Inr p1 \<Rightarrow>
          (case define_markers_and_measures L p1 of
             Inl e \<Rightarrow> Inl e
           | Inr p2 \<Rightarrow>
               (case assign_functions_to_species p2 of
                  Inl e \<Rightarrow> Inl e
                | Inr p3 \<Rightarrow> create_formulation L p3)))"

text \<open>
  What makes the marking of the subdomains run through and keeps every id as it
  is: the located cells lie in the mesh, and the ids and the located dofs fit
  32-bit integers.
\<close>

fun markers_ok :: "'c fem_library \<Rightarrow> Mesh \<Rightarrow> function_space \<Rightarrow> subdomain list \<Rightarrow> bool" where
  "markers_ok L m V [] = True"
| "markers_ok L m V (Surface1D s # rest) =
     (int (locate_dof L s V) < 2 ^ 31 \<and> in_int32 (s_id s) \<and> markers_ok L m V rest)"
| "markers_ok L m V (Volume1D v # rest) =
     (list_all (\<lambda>c. c < num_cells m) (locate_subdomain_entities L v m (topology_dim m))
      \<and> in_int32 (v_id v) \<and> markers_ok L m V rest)"
| "markers_ok L m V (OtherSubdomain i # rest) = markers_ok L m V rest"


text \<open>The two terms the formulation holds for a species on a volume subdomain.\<close>

definition subdomain_terms ::
  "'c \<Rightarrow> measure \<Rightarrow> species_obj \<Rightarrow> VolumeSubdomain1D \<Rightarrow> 'c integral list" where
  "subdomain_terms D dx' spe vol =
     [Integral (DiffusionTerm D (the (solution spe)) (the (test_function spe))) dx' (v_id vol),
      Integral (TransientTerm (the (solution spe)) (the (prev_solution spe)) (1 / 20)
                  (the (test_function spe))) dx' (v_id vol)]"

definition functions_assigned :: "species_obj \<Rightarrow> bool" where
  "functions_assigned spe =
     (solution spe \<noteq> None \<and> prev_solution spe \<noteq> None \<and> test_function spe \<noteq> None)"

text \<open>
  A concrete problem: a mesh of four cells, two overlapping volume subdomains and a
  surface subdomain, one species, at 500 K. The library locates the volume with id
  1 in the cells 0 and 1, any other in the cells 1 and 2, and every surface at dof
  0; a diffusion coefficient is the triple of the material's two constants and the
  temperature.
\<close>

definition example_library :: "(real \<times> real \<times> real) fem_library" where
  "example_library =
     \<lparr>locate_dof = (\<lambda>s V. 0),
      locate_subdomain_entities = (\<lambda>v m d. if v_id v = 1 then [0, 1] else [1, 2]),
      get_diffusion_coefficient =
        (\<lambda>mat m T. case T of None \<Rightarrow> Inl TypeError | Some temp \<Rightarrow> Inr (D_0 mat, E_D mat, temp))\<rparr>"

definition example_material :: Material where
  "example_material = \<lparr>D_0 = 1, E_D = 0, m_name = ''mat''\<rparr>"

definition example_species :: "string \<Rightarrow> species_obj" where
  "example_species n = \<lparr>sp_name = n, solution = None, prev_solution = None, test_function = None,
     post_processing_solution = None\<rparr>"

definition example_problem :: "(real \<times> real \<times> real) HydrogenTransportProblem" where
  "example_problem =
     \<lparr>p_mesh = Some \<lparr>mesh_id = 0, topology_dim = 1, num_cells = 4\<rparr>,
      p_subdomains =
        [Volume1D \<lparr>v_id = 1, v_borders = (0, 2), v_material = example_material\<rparr>,
         Surface1D \<lparr>s_id = 5, s_x = 0\<rparr>,
         Volume1D \<lparr>v_id = 2, v_borders = (1, 3), v_material = example_material\<rparr>],
      p_species = [example_species ''H''],
      p_temperature = Some 500,
      p_sources = [],
      p_dx = None, p_ds = None, p_function_space = None,
      p_facet_meshtags = None, p_volume_meshtags = None, p_formulation = None,
      p_volume_subdomains = [], p_dt = None, p_next_id = 0\<rparr>"

definition example_with_space :: "(real \<times> real \<times> real) HydrogenTransportProblem" where
  "example_with_space =
     example_problem\<lparr>p_function_space := Some \<lparr>fs_mesh = 0, fs_family = ''CG'', fs_degree = 1\<rparr>\<rparr>"



section \<open>FESTIM/post\_processing.py: extrema over a subdomain\<close>

text \<open>
  A function of the library as the reductions read it: the local values of its
  vector, and the dofs of each cell in its dofmap. Floating-point values are
  taken as real numbers.
\<close>

record dolfin_function =
  f_vector :: "real list"
  f_cell_dofs :: "nat \<Rightarrow> nat list"

text \<open>\<open>SubsetIterator(subdomains, subd_id)\<close>: the cells whose marker is \<open>subd_id\<close>, in order.\<close>

definition SubsetIterator :: "int list \<Rightarrow> int \<Rightarrow> nat list" where
  "SubsetIterator subdomains subd_id =
     filter (\<lambda>c. subdomains ! c = subd_id) [0..<length subdomains]"

text \<open>\<open>np.hstack\<close> needs at least one array; \<open>np.unique\<close> sorts and drops duplicates.\<close>

definition np_hstack :: "'a list list \<Rightarrow> exn + 'a list" where
  "np_hstack arrays = (if arrays = [] then Inl ValueError else Inr (concat arrays))"

definition np_unique :: "nat list \<Rightarrow> nat list" where
  "np_unique xs = sort (remdups xs)"

text \<open>Indexing an array by an array of indices: an index out of range raises.\<close>

definition take_indices :: "'a list \<Rightarrow> nat list \<Rightarrow> exn + 'a list" where
  "take_indices a idx =
     (if list_all (\<lambda>i. i < length a) idx then Inr (map (\<lambda>i. a ! i) idx) else Inl IndexError)"

text \<open>\<open>np.max\<close> and \<open>np.min\<close> raise on an empty array.\<close>

fun np_max :: "real list \<Rightarrow> exn + real" where
  "np_max [] = Inl ValueError"
| "np_max (x # xs) = Inr (fold max xs x)"

fun np_min :: "real list \<Rightarrow> exn + real" where
  "np_min [] = Inl ValueError"
| "np_min (x # xs) = Inr (fold min xs x)"

definition subd_dofs :: "dolfin_function \<Rightarrow> int list \<Rightarrow> int \<Rightarrow> exn + nat list" where
  "subd_dofs function subdomains subd_id =
     (case np_hstack (map (f_cell_dofs function) (SubsetIterator subdomains subd_id)) of
        Inl e \<Rightarrow> Inl e
      | Inr dofs \<Rightarrow> Inr (np_unique dofs))"

definition calculate_maximum_volume :: "dolfin_function \<Rightarrow> int list \<Rightarrow> int \<Rightarrow> exn + real" where
  "calculate_maximum_volume function subdomains subd_id =
     (case subd_dofs function subdomains subd_id of
        Inl e \<Rightarrow> Inl e
      | Inr dofs \<Rightarrow>
          (case take_indices (f_vector function) dofs of
             Inl e \<Rightarrow> Inl e
           | Inr vals \<Rightarrow> np_max vals))"

definition calculate_minimum_volume :: "dolfin_function \<Rightarrow> int list \<Rightarrow> int \<Rightarrow> exn + real" where
  "calculate_minimum_volume function subdomains subd_id =
     (case subd_dofs function subdomains subd_id of
        Inl e \<Rightarrow> Inl e
      | Inr dofs \<Rightarrow>
          (case take_indices (f_vector function) dofs of
             Inl e \<Rightarrow> Inl e
           | Inr vals \<Rightarrow> np_min vals))"

text \<open>
  The dofs of the cells marked with an id, and the values of a function at them.
\<close>

definition marked_dofs :: "dolfin_function \<Rightarrow> int list \<Rightarrow> int \<Rightarrow> nat set" where
  "marked_dofs function subdomains subd_id =
     (\<Union>c \<in> {c. c < length subdomains \<and> subdomains ! c = subd_id}. set (f_cell_dofs function c))"

definition marked_values :: "dolfin_function \<Rightarrow> int list \<Rightarrow> int \<Rightarrow> real set" where
  "marked_values function subdomains subd_id =
     (\<lambda>d. f_vector function ! d) ` marked_dofs function subdomains subd_id"

text \<open>A function on three cells of two dofs each, for concrete runs.\<close>

definition example_function :: dolfin_function where
  "example_function = \<lparr>f_vector = [3, 1, 4, 5], f_cell_dofs = (\<lambda>c. [c, c + 1])\<rparr>"

section \<open>FESTIM/post\_processing.py: derived quantities\<close>

text \<open>
  A field handed to the post-processing: a Function of the library, or an
  expression built from fields (the sum that \<open>sum\<close> builds, a product with a
  property), or the integer 0 that \<open>sum\<close> starts from. \<open>'p\<close> is the type of the
  property coefficients (diffusivity, solubility, ...).
\<close>

datatype 'p field =
    Function dolfin_function
  | UflSum "'p field" "'p field"
  | UflProduct "'p field" 'p
  | IntZero

text \<open>
  The forms the derived quantities assemble, each with the markers of its measure
  and the surface or volume id:
  \<open>FluxForm prop sol\<close> is \<open>prop*dot(grad(sol), n)*ds(surf)\<close>,
  \<open>SoretFluxForm prop sol Q T\<close> is \<open>prop*sol*Q/(R*T**2)*dot(grad(T), n)*ds(surf)\<close>,
  \<open>VolumeForm sol\<close> is \<open>sol*dx(vol)\<close>, \<open>UnitVolumeForm\<close> is \<open>1*dx(vol)\<close> and
  \<open>SurfaceForm sol\<close> is \<open>sol*ds(surf)\<close>.
\<close>

datatype 'p form =
    FluxForm 'p "'p field" "int list" int
  | SoretFluxForm 'p "'p field" 'p "'p field" "int list" int
  | VolumeForm "'p field" "int list" int
  | UnitVolumeForm "int list" int
  | SurfaceForm "'p field" "int list" int

text \<open>Python's \<open>xs[i]\<close>, a negative index counting from the end.\<close>

definition py_index :: "'a list \<Rightarrow> int \<Rightarrow> exn + 'a" where
  "py_index xs i =
     (let j = (if i < 0 then int (length xs) + i else i)
      in if j < 0 \<or> int (length xs) \<le> j then Inl IndexError else Inr (xs ! nat j))"

text \<open>Python's \<open>sum\<close> over fields: it starts from 0, and 0 plus a field is the field.\<close>

fun py_sum :: "'p field list \<Rightarrow> 'p field" where
  "py_sum [] = IntZero"
| "py_sum (x # xs) = foldl UflSum x xs"

subsection \<open>The parameters\<close>

text \<open>
  The value under the key \<open>field\<close> of a request is an \<open>int\<close> or a \<open>str\<close>; a request
  is a dict with the optional keys \<open>field\<close>, \<open>surfaces\<close> and \<open>volumes\<close>. The dict of
  derived quantities maps a quantity to its list of requests and the other keys
  (\<open>file\<close>, \<open>folder\<close>, ...) to settings; it is kept in the order of its keys, which
  are distinct.
\<close>

datatype field_key = FieldInt int | FieldStr string

fun str_field :: "field_key \<Rightarrow> string" where
  "str_field (FieldInt i) = str_int i"
| "str_field (FieldStr s) = s"

record dq_entry =
  e_field :: "field_key option"
  e_surfaces :: "int list option"
  e_volumes :: "int list option"

datatype dq_item = Entries "dq_entry list" | Setting

type_synonym dq_dict = "(string \<times> dq_item) list"

text \<open>
  Of the dict \<open>exports\<close>, the keys read here: \<open>derived_quantities\<close> and whether there
  is a key \<open>txt\<close>. Of the parameters: \<open>exports\<close>, and \<open>temperature\<close> with its key
  \<open>soret\<close> (\<open>None\<close> for a missing key, at either level).
\<close>

record exports_dict =
  ex_derived_quantities :: "dq_dict option"
  ex_txt :: bool

record parameters =
  par_exports :: "exports_dict option"
  par_soret :: "bool option option"

subsection \<open>The loops over the requests\<close>

text \<open>
  Each quantity is handled by the same two nested loops: over the requests of the
  quantity, and over the surfaces or volumes of a request, appending one element
  each time. \<open>body\<close> is what a request does before its inner loop (its lookups, which
  may raise) and yields the ids to loop over with the element appended for an id.
\<close>

fun append_each :: "('x \<Rightarrow> exn + 'v) \<Rightarrow> 'x list \<Rightarrow> 'v list \<Rightarrow> exn + 'v list" where
  "append_each f [] tab = Inr tab"
| "append_each f (x # xs) tab =
     (case f x of Inl e \<Rightarrow> Inl e | Inr v \<Rightarrow> append_each f xs (tab @ [v]))"

fun quantity_loop ::
  "(dq_entry \<Rightarrow> exn + int list \<times> (int \<Rightarrow> exn + 'v)) \<Rightarrow> dq_entry list \<Rightarrow> 'v list \<Rightarrow> exn + 'v list" where
  "quantity_loop body [] tab = Inr tab"
| "quantity_loop body (entry # rest) tab =
     (case body entry of
        Inl e \<Rightarrow> Inl e
      | Inr (ids, f) \<Rightarrow>
          (case append_each f ids tab of
             Inl e \<Rightarrow> Inl e
           | Inr tab' \<Rightarrow> quantity_loop body rest tab'))"

text \<open>\<open>if key in derived_quant_dict.keys(): for entry in derived_quant_dict[key]: ...\<close>\<close>

definition quantity_block ::
  "dq_dict \<Rightarrow> string \<Rightarrow> (dq_entry \<Rightarrow> exn + int list \<times> (int \<Rightarrow> exn + 'v)) \<Rightarrow> 'v list \<Rightarrow> exn + 'v list" where
  "quantity_block d key body tab =
     (case map_of d key of
        None \<Rightarrow> Inr tab
      | Some Setting \<Rightarrow> Inl TypeError
      | Some (Entries entries) \<Rightarrow> quantity_loop body entries tab)"

subsection \<open>The header\<close>

definition isdigit :: "string \<Rightarrow> bool" where
  "isdigit s = (s \<noteq> [] \<and> list_all (\<lambda>c. c \<in> set ''0123456789'') s)"

definition digit_value :: "char \<Rightarrow> nat" where
  "digit_value c = of_char c - 48"

definition int_of_str :: "string \<Rightarrow> int" where
  "int_of_str s = int (foldl (\<lambda>n c. 10 * n + digit_value c) 0 s)"

definition non_quantity_types :: "string list" where
  "non_quantity_types =
     [''file'', ''folder'', ''nb_iterations_between_compute'', ''nb_iterations_between_exports'']"

text \<open>
  \<open>check_keys_derived_quantities\<close>. The lists \<open>quantity_types\<close> and \<open>field_types\<close> of
  \<open>FESTIM.helpers\<close> are not among the sources at hand; they are parameters, as is
  the number of traps of the simulation.
\<close>

fun check_field :: "string list \<Rightarrow> nat \<Rightarrow> field_key \<Rightarrow> exn option" where
  "check_field field_types n_traps (FieldInt i) =
     (if i > int n_traps \<or> i < 0 then Some ValueError else None)"
| "check_field field_types n_traps (FieldStr s) =
     (if s \<notin> set field_types then
        (if isdigit s then
           (if n_traps \<noteq> 0 then
              (if int_of_str s > int n_traps \<or> int_of_str s < 0 then Some ValueError else None)
            else Some ValueError)
         else Some ValueError)
      else None)"

fun check_entries :: "string list \<Rightarrow> nat \<Rightarrow> dq_entry list \<Rightarrow> exn option" where
  "check_entries field_types n_traps [] = None"
| "check_entries field_types n_traps (f # rest) =
     (case e_field f of
        None \<Rightarrow> Some KeyError
      | Some k \<Rightarrow>
          (case check_field field_types n_traps k of
             Some e \<Rightarrow> Some e
           | None \<Rightarrow>
               if e_surfaces f = None \<and> e_volumes f = None then Some KeyError
               else check_entries field_types n_traps rest))"

fun check_quantities :: "string list \<Rightarrow> string list \<Rightarrow> nat \<Rightarrow> dq_dict \<Rightarrow> string list \<Rightarrow> exn option" where
  "check_quantities quantity_types field_types n_traps d [] = None"
| "check_quantities quantity_types field_types n_traps d (quantity # rest) =
     (if quantity \<notin> set (quantity_types @ non_quantity_types) then Some ValueError
      else if quantity \<notin> set non_quantity_types then
        (case map_of d quantity of
           None \<Rightarrow> Some KeyError
         | Some Setting \<Rightarrow> Some TypeError
         | Some (Entries fs) \<Rightarrow>
             (case check_entries field_types n_traps fs of
                Some e \<Rightarrow> Some e
              | None \<Rightarrow> check_quantities quantity_types field_types n_traps d rest))
      else check_quantities quantity_types field_types n_traps d rest)"

definition check_keys_derived_quantities :: "string list \<Rightarrow> string list \<Rightarrow> nat \<Rightarrow> dq_dict \<Rightarrow> exn option" where
  "check_keys_derived_quantities quantity_types field_types n_traps d =
     check_quantities quantity_types field_types n_traps d (map fst d)"

text \<open>The column titles, in the words of the source.\<close>

definition flux_label :: "field_key \<Rightarrow> int \<Rightarrow> string" where
  "flux_label field surf = ''Flux surface '' @ str_int surf @ '': '' @ str_field field"

definition volume_label :: "string \<Rightarrow> field_key \<Rightarrow> int \<Rightarrow> string" where
  "volume_label what field vol = what @ '' '' @ str_field field @ '' volume '' @ str_int vol"

definition total_surface_label :: "field_key \<Rightarrow> int \<Rightarrow> string" where
  "total_surface_label field surf = ''Total '' @ str_field field @ '' surface '' @ str_int surf"

text \<open>The quantities, in the order of their blocks in the source, and their keys.\<close>

datatype quantity_kind =
  SurfaceFlux | AverageVolume | MinimumVolume | MaximumVolume | TotalVolume | TotalSurface

fun quantity_key :: "quantity_kind \<Rightarrow> string" where
  "quantity_key SurfaceFlux = ''surface_flux''"
| "quantity_key AverageVolume = ''average_volume''"
| "quantity_key MinimumVolume = ''minimum_volume''"
| "quantity_key MaximumVolume = ''maximum_volume''"
| "quantity_key TotalVolume = ''total_volume''"
| "quantity_key TotalSurface = ''total_surface''"

text \<open>The key a quantity loops over in a request, and the title of its columns.\<close>

fun request_ids :: "quantity_kind \<Rightarrow> dq_entry \<Rightarrow> int list option" where
  "request_ids SurfaceFlux = e_surfaces"
| "request_ids TotalSurface = e_surfaces"
| "request_ids kind = e_volumes"

fun quantity_label :: "quantity_kind \<Rightarrow> field_key \<Rightarrow> int \<Rightarrow> string" where
  "quantity_label SurfaceFlux = flux_label"
| "quantity_label AverageVolume = volume_label ''Average''"
| "quantity_label MinimumVolume = volume_label ''Minimum''"
| "quantity_label MaximumVolume = volume_label ''Maximum''"
| "quantity_label TotalVolume = volume_label ''Total''"
| "quantity_label TotalSurface = total_surface_label"

text \<open>
  What a request does in the header: its surfaces or volumes are read first, its
  field when a title is built.
\<close>

definition header_body ::
  "(dq_entry \<Rightarrow> int list option) \<Rightarrow> (field_key \<Rightarrow> int \<Rightarrow> string) \<Rightarrow> dq_entry
     \<Rightarrow> exn + int list \<times> (int \<Rightarrow> exn + string)" where
  "header_body ids label entry =
     (case ids entry of
        None \<Rightarrow> Inl KeyError
      | Some xs \<Rightarrow>
          Inr (xs, \<lambda>x. case e_field entry of None \<Rightarrow> Inl KeyError | Some k \<Rightarrow> Inr (label k x)))"

definition header_block :: "dq_dict \<Rightarrow> quantity_kind \<Rightarrow> string list \<Rightarrow> exn + string list" where
  "header_block d kind header =
     quantity_block d (quantity_key kind) (header_body (request_ids kind) (quantity_label kind)) header"

text \<open>The six blocks of the header, in their order.\<close>

definition header_columns :: "dq_dict \<Rightarrow> string list \<Rightarrow> exn + string list" where
  "header_columns d header =
     (case header_block d SurfaceFlux header of Inl e \<Rightarrow> Inl e | Inr h1 \<Rightarrow>
     (case header_block d AverageVolume h1 of Inl e \<Rightarrow> Inl e | Inr h2 \<Rightarrow>
     (case header_block d MinimumVolume h2 of Inl e \<Rightarrow> Inl e | Inr h3 \<Rightarrow>
     (case header_block d MaximumVolume h3 of Inl e \<Rightarrow> Inl e | Inr h4 \<Rightarrow>
     (case header_block d TotalVolume h4 of Inl e \<Rightarrow> Inl e | Inr h5 \<Rightarrow>
        header_block d TotalSurface h5)))))"

definition header_derived_quantities ::
  "string list \<Rightarrow> string list \<Rightarrow> nat \<Rightarrow> parameters \<Rightarrow> exn + string list" where
  "header_derived_quantities quantity_types field_types n_traps params =
     (let header = [''t(s)''] in
      case par_exports params of
        None \<Rightarrow> Inr header
      | Some ex \<Rightarrow>
          (case ex_derived_quantities ex of
             None \<Rightarrow> Inr header
           | Some d \<Rightarrow>
               (case check_keys_derived_quantities quantity_types field_types n_traps d of
                  Some e \<Rightarrow> Inl e
                | None \<Rightarrow> header_columns d header)))"

subsection \<open>The values\<close>

text \<open>\<open>field_to_sol[str(entry["field"])]\<close>: a missing key raises, at either step.\<close>

definition lookup_field :: "(string \<Rightarrow> 'a option) \<Rightarrow> dq_entry \<Rightarrow> exn + 'a" where
  "lookup_field m entry =
     (case e_field entry of
        None \<Rightarrow> Inl KeyError
      | Some k \<Rightarrow> (case m (str_field k) of None \<Rightarrow> Inl KeyError | Some v \<Rightarrow> Inr v))"

text \<open>The extremum of a field: only a Function has a function space.\<close>

fun field_extremum ::
  "(dolfin_function \<Rightarrow> int list \<Rightarrow> int \<Rightarrow> exn + real) \<Rightarrow> 'p field \<Rightarrow> int list \<Rightarrow> int \<Rightarrow> exn + real" where
  "field_extremum calc (Function f) markers vol = calc f markers vol"
| "field_extremum calc other markers vol = Inl AttributeError"

text \<open>\<open>val = 0; for fun in solutions[0:-2]: val += calculate(fun, volume_markers, vol)\<close>\<close>

fun sum_extrema ::
  "(dolfin_function \<Rightarrow> int list \<Rightarrow> int \<Rightarrow> exn + real) \<Rightarrow> 'p field list \<Rightarrow> int list \<Rightarrow> int \<Rightarrow> real
     \<Rightarrow> exn + real" where
  "sum_extrema calc [] markers vol val = Inr val"
| "sum_extrema calc (fun # rest) markers vol val =
     (case field_extremum calc fun markers vol of
        Inl e \<Rightarrow> Inl e
      | Inr m \<Rightarrow> sum_extrema calc rest markers vol (val + m))"

definition surface_flux_body ::
  "('p form \<Rightarrow> real) \<Rightarrow> int list \<Rightarrow> bool \<Rightarrow> 'p option \<Rightarrow> 'p field \<Rightarrow> (string \<Rightarrow> 'p field option)
     \<Rightarrow> (string \<Rightarrow> 'p option option) \<Rightarrow> dq_entry \<Rightarrow> exn + int list \<times> (int \<Rightarrow> exn + real)" where
  "surface_flux_body assemble surface_markers soret Q T field_to_sol field_to_prop flux =
     (case lookup_field field_to_sol flux of
        Inl e \<Rightarrow> Inl e
      | Inr sol \<Rightarrow>
          (case lookup_field field_to_prop flux of
             Inl e \<Rightarrow> Inl e
           | Inr prop \<Rightarrow>
               (case e_surfaces flux of
                  None \<Rightarrow> Inl KeyError
                | Some surfaces \<Rightarrow>
                    Inr (surfaces, \<lambda>surf.
                      (case prop of
                         None \<Rightarrow> Inl TypeError
                       | Some prop' \<Rightarrow>
                           (let phi = assemble (FluxForm prop' sol surface_markers surf) in
                            if soret \<and> map_option str_field (e_field flux) = Some ''solute'' then
                              (case Q of
                                 None \<Rightarrow> Inl TypeError
                               | Some Q' \<Rightarrow>
                                   Inr (phi + assemble (SoretFluxForm prop' sol Q' T surface_markers surf)))
                            else Inr phi))))))"

definition average_volume_body ::
  "('p form \<Rightarrow> real) \<Rightarrow> int list \<Rightarrow> (string \<Rightarrow> 'p field option) \<Rightarrow> dq_entry
     \<Rightarrow> exn + int list \<times> (int \<Rightarrow> exn + real)" where
  "average_volume_body assemble volume_markers field_to_sol average =
     (case lookup_field field_to_sol average of
        Inl e \<Rightarrow> Inl e
      | Inr sol \<Rightarrow>
          (case e_volumes average of
             None \<Rightarrow> Inl KeyError
           | Some volumes \<Rightarrow>
               Inr (volumes, \<lambda>vol.
                 if assemble (UnitVolumeForm volume_markers vol) = 0 then Inl ZeroDivisionError
                 else Inr (assemble (VolumeForm sol volume_markers vol)
                             / assemble (UnitVolumeForm volume_markers vol)))))"

definition extremum_volume_body ::
  "(dolfin_function \<Rightarrow> int list \<Rightarrow> int \<Rightarrow> exn + real) \<Rightarrow> 'p field list \<Rightarrow> int list
     \<Rightarrow> (string \<Rightarrow> 'p field option) \<Rightarrow> dq_entry \<Rightarrow> exn + int list \<times> (int \<Rightarrow> exn + real)" where
  "extremum_volume_body calc solutions volume_markers field_to_sol entry =
     (case e_field entry of
        None \<Rightarrow> Inl KeyError
      | Some k \<Rightarrow>
          if str_field k = ''retention'' then
            (case e_volumes entry of
               None \<Rightarrow> Inl KeyError
             | Some volumes \<Rightarrow>
                 Inr (volumes, \<lambda>vol.
                   sum_extrema calc (take (length solutions - 2) solutions) volume_markers vol 0))
          else
            (case field_to_sol (str_field k) of
               None \<Rightarrow> Inl KeyError
             | Some sol \<Rightarrow>
                 (case e_volumes entry of
                    None \<Rightarrow> Inl KeyError
                  | Some volumes \<Rightarrow>
                      Inr (volumes, \<lambda>vol. field_extremum calc sol volume_markers vol))))"

definition total_volume_body ::
  "('p form \<Rightarrow> real) \<Rightarrow> int list \<Rightarrow> (string \<Rightarrow> 'p field option) \<Rightarrow> dq_entry
     \<Rightarrow> exn + int list \<times> (int \<Rightarrow> exn + real)" where
  "total_volume_body assemble volume_markers field_to_sol entry =
     (case lookup_field field_to_sol entry of
        Inl e \<Rightarrow> Inl e
      | Inr sol \<Rightarrow>
          (case e_volumes entry of
             None \<Rightarrow> Inl KeyError
           | Some volumes \<Rightarrow> Inr (volumes, \<lambda>vol. Inr (assemble (VolumeForm sol volume_markers vol)))))"

definition total_surface_body ::
  "('p form \<Rightarrow> real) \<Rightarrow> int list \<Rightarrow> (string \<Rightarrow> 'p field option) \<Rightarrow> dq_entry
     \<Rightarrow> exn + int list \<times> (int \<Rightarrow> exn + real)" where
  "total_surface_body assemble surface_markers field_to_sol entry =
     (case lookup_field field_to_sol entry of
        Inl e \<Rightarrow> Inl e
      | Inr sol \<Rightarrow>
          (case e_surfaces entry of
             None \<Rightarrow> Inl KeyError
           | Some surfaces \<Rightarrow> Inr (surfaces, \<lambda>surf. Inr (assemble (SurfaceForm sol surface_markers surf)))))"

text \<open>
  The dict \<open>field_to_sol\<close>: \<open>solute\<close>, \<open>retention\<close>, \<open>T\<close>, and \<open>str(i)\<close> for the
  solutions between the first and the last two.
\<close>

definition field_to_sol_dict ::
  "'p field \<Rightarrow> 'p field \<Rightarrow> 'p field \<Rightarrow> 'p field list \<Rightarrow> string \<Rightarrow> 'p field option" where
  "field_to_sol_dict solute ret T solutions =
     fold (\<lambda>i m. m(str_nat i \<mapsto> solutions ! i)) [1..<length solutions - 2]
       [''solute'' \<mapsto> solute, ''retention'' \<mapsto> ret, ''T'' \<mapsto> T]"

text \<open>
  What \<open>derived_quantities\<close> sets up before it computes: the markers, the Soret
  switch with its property \<open>Q\<close>, the temperature field and the two dicts.
\<close>

record 'p dq_context =
  c_solutions :: "'p field list"
  c_volume_markers :: "int list"
  c_surface_markers :: "int list"
  c_soret :: bool
  c_Q :: "'p option"
  c_T :: "'p field"
  c_field_to_sol :: "string \<Rightarrow> 'p field option"
  c_field_to_prop :: "string \<Rightarrow> 'p option option"

definition soret_of :: "parameters \<Rightarrow> 'p option list \<Rightarrow> exn + bool \<times> 'p option" where
  "soret_of params properties =
     (case par_soret params of
        Some (Some True) \<Rightarrow>
          (case py_index properties 2 of Inl e \<Rightarrow> Inl e | Inr Q \<Rightarrow> Inr (True, Q))
      | _ \<Rightarrow> Inr (False, None))"

definition derived_quantities_setup ::
  "parameters \<Rightarrow> 'p field list \<Rightarrow> int list list \<Rightarrow> 'p option list \<Rightarrow> exn + 'p dq_context" where
  "derived_quantities_setup params solutions markers properties =
     (case py_index properties 0 of Inl e \<Rightarrow> Inl e | Inr D \<Rightarrow>
     (case py_index properties 1 of Inl e \<Rightarrow> Inl e | Inr thermal_cond \<Rightarrow>
     (case soret_of params properties of Inl e \<Rightarrow> Inl e | Inr (soret, Q) \<Rightarrow>
     (case py_index markers 0 of Inl e \<Rightarrow> Inl e | Inr volume_markers \<Rightarrow>
     (case py_index markers 1 of Inl e \<Rightarrow> Inl e | Inr surface_markers \<Rightarrow>
     (case py_index solutions (int (length solutions) - 2) of Inl e \<Rightarrow> Inl e | Inr ret \<Rightarrow>
     (case py_index solutions (int (length solutions) - 1) of Inl e \<Rightarrow> Inl e | Inr T \<Rightarrow>
     (case py_index solutions 0 of Inl e \<Rightarrow> Inl e | Inr solute \<Rightarrow>
        Inr \<lparr>c_solutions = solutions,
             c_volume_markers = volume_markers,
             c_surface_markers = surface_markers,
             c_soret = soret, c_Q = Q, c_T = T,
             c_field_to_sol = field_to_sol_dict solute ret T solutions,
             c_field_to_prop = [''solute'' \<mapsto> D, ''T'' \<mapsto> thermal_cond]\<rparr>))))))))"

text \<open>What a request of a quantity does in \<open>derived_quantities\<close>.\<close>

fun quantity_body ::
  "('p form \<Rightarrow> real) \<Rightarrow> 'p dq_context \<Rightarrow> quantity_kind \<Rightarrow> dq_entry
     \<Rightarrow> exn + int list \<times> (int \<Rightarrow> exn + real)" where
  "quantity_body assemble c SurfaceFlux =
     surface_flux_body assemble (c_surface_markers c) (c_soret c) (c_Q c) (c_T c)
       (c_field_to_sol c) (c_field_to_prop c)"
| "quantity_body assemble c AverageVolume =
     average_volume_body assemble (c_volume_markers c) (c_field_to_sol c)"
| "quantity_body assemble c MinimumVolume =
     extremum_volume_body calculate_minimum_volume (c_solutions c) (c_volume_markers c)
       (c_field_to_sol c)"
| "quantity_body assemble c MaximumVolume =
     extremum_volume_body calculate_maximum_volume (c_solutions c) (c_volume_markers c)
       (c_field_to_sol c)"
| "quantity_body assemble c TotalVolume =
     total_volume_body assemble (c_volume_markers c) (c_field_to_sol c)"
| "quantity_body assemble c TotalSurface =
     total_surface_body assemble (c_surface_markers c) (c_field_to_sol c)"

definition value_block ::
  "('p form \<Rightarrow> real) \<Rightarrow> 'p dq_context \<Rightarrow> dq_dict \<Rightarrow> quantity_kind \<Rightarrow> real list \<Rightarrow> exn + real list" where
  "value_block assemble c d kind tab =
     quantity_block d (quantity_key kind) (quantity_body assemble c kind) tab"

text \<open>The six blocks of \<open>derived_quantities\<close>, in their order.\<close>

definition compute_quantities ::
  "('p form \<Rightarrow> real) \<Rightarrow> 'p dq_context \<Rightarrow> dq_dict \<Rightarrow> real list \<Rightarrow> exn + real list" where
  "compute_quantities assemble c d tab =
     (case value_block assemble c d SurfaceFlux tab of Inl e \<Rightarrow> Inl e | Inr t1 \<Rightarrow>
     (case value_block assemble c d AverageVolume t1 of Inl e \<Rightarrow> Inl e | Inr t2 \<Rightarrow>
     (case value_block assemble c d MinimumVolume t2 of Inl e \<Rightarrow> Inl e | Inr t3 \<Rightarrow>
     (case value_block assemble c d MaximumVolume t3 of Inl e \<Rightarrow> Inl e | Inr t4 \<Rightarrow>
     (case value_block assemble c d TotalVolume t4 of Inl e \<Rightarrow> Inl e | Inr t5 \<Rightarrow>
        value_block assemble c d TotalSurface t5)))))"

definition derived_quantities ::
  "('p form \<Rightarrow> real) \<Rightarrow> parameters \<Rightarrow> 'p field list \<Rightarrow> int list list \<Rightarrow> 'p option list
     \<Rightarrow> exn + real list" where
  "derived_quantities assemble params solutions markers properties =
     (case derived_quantities_setup params solutions markers properties of
        Inl e \<Rightarrow> Inl e
      | Inr c \<Rightarrow>
          (case par_exports params of
             None \<Rightarrow> Inl KeyError
           | Some ex \<Rightarrow>
               (case ex_derived_quantities ex of
                  None \<Rightarrow> Inl KeyError
                | Some d \<Rightarrow> compute_quantities assemble c d [])))"

subsection \<open>The requested pairs\<close>

text \<open>
  The pairs of a request and one of its surfaces or volumes, quantity by quantity
  in the fixed order, with the title of the column of a pair and its value.
\<close>

definition requests_of :: "dq_dict \<Rightarrow> quantity_kind \<Rightarrow> (quantity_kind \<times> dq_entry \<times> int) list" where
  "requests_of d kind =
     (case map_of d (quantity_key kind) of
        Some (Entries entries) \<Rightarrow>
          concat (map (\<lambda>e. map (\<lambda>x. (kind, e, x)) (case request_ids kind e of None \<Rightarrow> [] | Some xs \<Rightarrow> xs))
                    entries)
      | _ \<Rightarrow> [])"

definition requests :: "dq_dict \<Rightarrow> (quantity_kind \<times> dq_entry \<times> int) list" where
  "requests d =
     concat (map (requests_of d)
       [SurfaceFlux, AverageVolume, MinimumVolume, MaximumVolume, TotalVolume, TotalSurface])"

definition column_title :: "quantity_kind \<times> dq_entry \<times> int \<Rightarrow> string" where
  "column_title = (\<lambda>(kind, e, x). quantity_label kind (the (e_field e)) x)"

definition request_value ::
  "('p form \<Rightarrow> real) \<Rightarrow> 'p dq_context \<Rightarrow> quantity_kind \<times> dq_entry \<times> int \<Rightarrow> exn + real" where
  "request_value assemble c = (\<lambda>(kind, e, x).
     case quantity_body assemble c kind e of Inl err \<Rightarrow> Inl err | Inr (ids, f) \<Rightarrow> f x)"

section \<open>FESTIM/post\_processing.py: run\_post\_processing\<close>

text \<open>
  The simulation object, as far as \<open>run_post_processing\<close> reads it. \<open>sim_u\<close> is the
  solution with the number of subspaces of its function space and the result of
  \<open>u.split()\<close>; the rows of \<open>derived_quantities_global\<close> are rows of cells.
\<close>

record 'p trap =
  trap_id :: int
  trap_post_processing_solution :: "'p field"

record old_xdmf_export =
  xe_last_time_step_only :: bool
  xe_function :: string
  xe_append :: bool

datatype export = XDMF old_xdmf_export | OtherExport

datatype label = LabelStr string | LabelInt int

text \<open>
  What the function hands to code outside it: the file written by \<open>write_to_csv\<close>,
  and the fields written by an XDMF export (the index of the export in the list
  of exports, the dict of functions, the time).
\<close>

datatype 'p effect =
    WriteToCsv dq_dict "cell list list"
  | ExportWrite nat "label \<Rightarrow> 'p field option" real

record 'p Simulation =
  sim_parameters :: parameters
  sim_transient :: bool
  sim_u :: dolfin_function
  sim_num_sub_spaces :: nat
  sim_u_split :: "dolfin_function list"
  sim_T :: "'p field"
  sim_volume_markers :: "int list"
  sim_surface_markers :: "int list"
  sim_t :: real
  sim_dt :: real
  sim_final_time :: real
  sim_D :: "'p option"
  sim_thermal_cond :: "'p option"
  sim_H :: "'p option"
  sim_S :: "'p option"
  sim_derived_quantities_global :: "cell list list"
  sim_mobile_post_processing_solution :: "'p field"
  sim_mobile_solution :: "'p field"
  sim_traps :: "'p trap list"
  sim_chemical_pot :: bool
  sim_need_projecting_solute :: bool
  sim_nb_iterations :: int
  sim_nb_iterations_between_compute_derived_quantities :: int
  sim_nb_iterations_between_exports :: int
  sim_nb_iterations_between_export_derived_quantities :: "int option"
  sim_exports :: "export list"

text \<open>
  The functions of the library and of the other modules that the function calls:
  \<open>assemble\<close>, \<open>project\<close> (onto the space \<open>V_DG1\<close>) and \<open>export_profiles\<close>, which
  returns the step size.
\<close>

record 'p fenics =
  fe_assemble :: "'p form \<Rightarrow> real"
  fe_project :: "'p field \<Rightarrow> dolfin_function"
  fe_export_profiles :: "'p field list \<Rightarrow> real \<Rightarrow> real \<Rightarrow> real"

text \<open>Python's \<open>a % b == 0\<close> on integers.\<close>

definition py_divisible :: "int \<Rightarrow> int \<Rightarrow> exn + bool" where
  "py_divisible a b = (if b = 0 then Inl ZeroDivisionError else Inr (a mod b = 0))"

definition is_export_derived_quantities :: "'p Simulation \<Rightarrow> exn + bool" where
  "is_export_derived_quantities simulation =
     (if sim_transient simulation then
        (case sim_nb_iterations_between_export_derived_quantities simulation of
           None \<Rightarrow> Inr (sim_t simulation \<ge> sim_final_time simulation)
         | Some nb_its_between_exports \<Rightarrow>
             py_divisible (sim_nb_iterations simulation) nb_its_between_exports)
      else Inr True)"

text \<open>The change of variable \<open>solute = theta*S\<close>, projected when needed.\<close>

definition solute_of :: "'p fenics \<Rightarrow> 'p Simulation \<Rightarrow> 'p field \<Rightarrow> exn + 'p field" where
  "solute_of F simulation theta =
     (case sim_S simulation of
        None \<Rightarrow> Inl TypeError
      | Some S \<Rightarrow>
          Inr (if sim_need_projecting_solute simulation
               then Function (fe_project F (UflProduct theta S))
               else UflProduct theta S))"

fun add_trap_labels :: "'p trap list \<Rightarrow> (label \<Rightarrow> 'p field option) \<Rightarrow> (label \<Rightarrow> 'p field option)" where
  "add_trap_labels [] label_to_function = label_to_function"
| "add_trap_labels (trap # rest) label_to_function =
     add_trap_labels rest
       (label_to_function(LabelInt (trap_id trap) \<mapsto> trap_post_processing_solution trap,
                          LabelStr (str_int (trap_id trap)) \<mapsto> trap_post_processing_solution trap))"

definition label_to_function_of :: "'p Simulation \<Rightarrow> (label \<Rightarrow> 'p field option)" where
  "label_to_function_of simulation =
     add_trap_labels (sim_traps simulation)
       [LabelStr ''solute'' \<mapsto> sim_mobile_post_processing_solution simulation,
        LabelStr ''0'' \<mapsto> sim_mobile_post_processing_solution simulation,
        LabelInt 0 \<mapsto> sim_mobile_post_processing_solution simulation,
        LabelStr ''T'' \<mapsto> sim_T simulation,
        LabelStr ''retention'' \<mapsto>
          py_sum (sim_mobile_post_processing_solution simulation
                  # map trap_post_processing_solution (sim_traps simulation))]"

text \<open>The block under \<open>if "derived_quantities" in parameters["exports"].keys()\<close>.\<close>

definition derived_quantities_block ::
  "'p fenics \<Rightarrow> 'p Simulation \<Rightarrow> dq_dict \<Rightarrow> 'p field list
     \<Rightarrow> exn + cell list list \<times> 'p effect list" where
  "derived_quantities_block F simulation d res =
     (case py_divisible (sim_nb_iterations simulation)
             (sim_nb_iterations_between_compute_derived_quantities simulation) of
        Inl e \<Rightarrow> Inl e
      | Inr compute \<Rightarrow>
          (case (if compute
                 then (case derived_quantities (fe_assemble F) (sim_parameters simulation) res
                              [sim_volume_markers simulation, sim_surface_markers simulation]
                              [sim_D simulation, sim_thermal_cond simulation, sim_H simulation] of
                         Inl e \<Rightarrow> Inl e
                       | Inr derived_quantities_t \<Rightarrow>
                           Inr (sim_derived_quantities_global simulation
                                  @ [CNum (sim_t simulation) # map CNum derived_quantities_t]))
                 else Inr (sim_derived_quantities_global simulation)) of
             Inl e \<Rightarrow> Inl e
           | Inr derived_quantities_global \<Rightarrow>
               (case is_export_derived_quantities simulation of
                  Inl e \<Rightarrow> Inl e
                | Inr True \<Rightarrow> Inr (derived_quantities_global, [WriteToCsv d derived_quantities_global])
                | Inr False \<Rightarrow> Inr (derived_quantities_global, []))))"

text \<open>The loop over the exports; \<open>i\<close> is the index of the export at hand.\<close>

fun exports_loop ::
  "'p fenics \<Rightarrow> 'p Simulation \<Rightarrow> nat \<Rightarrow> export list \<Rightarrow> (label \<Rightarrow> 'p field option) \<Rightarrow> 'p effect list
     \<Rightarrow> exn + export list \<times> 'p effect list" where
  "exports_loop F simulation i [] label_to_function effects = Inr ([], effects)"
| "exports_loop F simulation i (OtherExport # rest) label_to_function effects =
     (case exports_loop F simulation (i + 1) rest label_to_function effects of
        Inl e \<Rightarrow> Inl e
      | Inr (rest', effects') \<Rightarrow> Inr (OtherExport # rest', effects'))"
| "exports_loop F simulation i (XDMF export # rest) label_to_function effects =
     (if (xe_last_time_step_only export \<and> sim_t simulation \<ge> sim_final_time simulation)
         \<or> \<not> xe_last_time_step_only export
      then
        (case py_divisible (sim_nb_iterations simulation) (sim_nb_iterations_between_exports simulation) of
           Inl e \<Rightarrow> Inl e
         | Inr False \<Rightarrow>
             (case exports_loop F simulation (i + 1) rest label_to_function effects of
                Inl e \<Rightarrow> Inl e
              | Inr (rest', effects') \<Rightarrow> Inr (XDMF export # rest', effects'))
         | Inr True \<Rightarrow>
             (case label_to_function (LabelStr ''retention'') of
                None \<Rightarrow> Inl KeyError
              | Some retention \<Rightarrow>
                  (let label_to_function' =
                         (if xe_function export = ''retention''
                          then (case retention of
                                  Function f \<Rightarrow> label_to_function
                                | other \<Rightarrow>
                                    label_to_function(LabelStr ''retention'' \<mapsto>
                                      Function (fe_project F other)))
                          else label_to_function)
                   in case exports_loop F simulation (i + 1) rest label_to_function'
                             (effects @ [ExportWrite i label_to_function' (sim_t simulation)]) of
                        Inl e \<Rightarrow> Inl e
                      | Inr (rest', effects') \<Rightarrow>
                          Inr (XDMF (export\<lparr>xe_append := True\<rparr>) # rest', effects'))))
      else
        (case exports_loop F simulation (i + 1) rest label_to_function effects of
           Inl e \<Rightarrow> Inl e
         | Inr (rest', effects') \<Rightarrow> Inr (XDMF export # rest', effects')))"

text \<open>
  \<open>run_post_processing\<close> returns the list of derived quantities and the step size;
  the list is the one of the simulation, extended in place, so the simulation is
  returned with it, together with what was handed to the outside.
\<close>

definition run_post_processing ::
  "'p fenics \<Rightarrow> 'p Simulation
     \<Rightarrow> exn + (cell list list \<times> real) \<times> 'p Simulation \<times> 'p effect list" where
  "run_post_processing F simulation =
     (case (if sim_chemical_pot simulation
            then (case solute_of F simulation (sim_mobile_solution simulation) of
                    Inl e \<Rightarrow> Inl e
                  | Inr solute \<Rightarrow>
                      Inr ((label_to_function_of simulation)(LabelStr ''solute'' \<mapsto> solute)))
            else Inr (label_to_function_of simulation)) of
        Inl e \<Rightarrow> Inl e
      | Inr label_to_function \<Rightarrow>
     (let res0 = (if sim_num_sub_spaces simulation = 0 then [Function (sim_u simulation)]
                  else map Function (sim_u_split simulation))
      in
     (case (if sim_chemical_pot simulation
            then (case py_index res0 0 of
                    Inl e \<Rightarrow> Inl e
                  | Inr theta \<Rightarrow>
                      (case solute_of F simulation theta of
                         Inl e \<Rightarrow> Inl e
                       | Inr solute \<Rightarrow> Inr (res0[0 := solute])))
            else Inr res0) of
        Inl e \<Rightarrow> Inl e
      | Inr res1 \<Rightarrow>
     (let res = res1 @ [py_sum res1, sim_T simulation] in
     (case par_exports (sim_parameters simulation) of
        None \<Rightarrow> Inl KeyError
      | Some ex \<Rightarrow>
     (case (case ex_derived_quantities ex of
              None \<Rightarrow> Inr (sim_derived_quantities_global simulation, [])
            | Some d \<Rightarrow> derived_quantities_block F simulation d res) of
        Inl e \<Rightarrow> Inl e
      | Inr (derived_quantities_global, effects) \<Rightarrow>
     (case exports_loop F simulation 0 (sim_exports simulation) label_to_function effects of
        Inl e \<Rightarrow> Inl e
      | Inr (exports', effects') \<Rightarrow>
          (let dt = (if ex_txt ex
                     then fe_export_profiles F res (sim_t simulation) (sim_dt simulation)
                     else sim_dt simulation)
           in Inr ((derived_quantities_global, dt),
                   simulation\<lparr>sim_derived_quantities_global := derived_quantities_global,
                              sim_exports := exports'\<rparr>,
                   effects')))))))))"

section \<open>A concrete post-processing run\<close>

text \<open>
  A transient simulation without traps at its fourth iteration, asked for the flux
  of the solute through the surfaces 1 and 2 and the average retention in the
  volume 7, computed every second iteration. The stand-in for \<open>assemble\<close> gives the
  surface id for a flux, 6 for the integral of a field over a volume and 3 for the
  measure of a volume.
\<close>

fun example_assemble :: "nat form \<Rightarrow> real" where
  "example_assemble (FluxForm prop sol markers surf) = real_of_int surf"
| "example_assemble (SoretFluxForm prop sol Q T markers surf) = 0"
| "example_assemble (VolumeForm sol markers vol) = 6"
| "example_assemble (UnitVolumeForm markers vol) = 3"
| "example_assemble (SurfaceForm sol markers surf) = 1"

definition example_fenics :: "nat fenics" where
  "example_fenics =
     \<lparr>fe_assemble = example_assemble,
      fe_project = (\<lambda>expr. example_function),
      fe_export_profiles = (\<lambda>res t dt. dt)\<rparr>"

definition example_dq :: dq_dict where
  "example_dq =
     [(''surface_flux'',
         Entries [\<lparr>e_field = Some (FieldStr ''solute''), e_surfaces = Some [1, 2], e_volumes = None\<rparr>]),
      (''average_volume'',
         Entries [\<lparr>e_field = Some (FieldStr ''retention''), e_surfaces = None, e_volumes = Some [7]\<rparr>]),
      (''file'', Setting)]"

definition example_parameters :: parameters where
  "example_parameters =
     \<lparr>par_exports = Some \<lparr>ex_derived_quantities = Some example_dq, ex_txt = False\<rparr>,
      par_soret = None\<rparr>"

definition example_header :: "string list" where
  "example_header =
     [''t(s)'', ''Flux surface 1: solute'', ''Flux surface 2: solute'', ''Average retention volume 7'']"

definition example_simulation :: "nat Simulation" where
  "example_simulation =
     \<lparr>sim_parameters = example_parameters,
      sim_transient = True,
      sim_u = example_function,
      sim_num_sub_spaces = 0,
      sim_u_split = [],
      sim_T = Function example_function,
      sim_volume_markers = [7, 2, 7],
      sim_surface_markers = [1, 2],
      sim_t = 10,
      sim_dt = 1,
      sim_final_time = 100,
      sim_D = Some 0,
      sim_thermal_cond = None,
      sim_H = None,
      sim_S = None,
      sim_derived_quantities_global = [map CStr example_header],
      sim_mobile_post_processing_solution = Function example_function,
      sim_mobile_solution = Function example_function,
      sim_traps = [],
      sim_chemical_pot = False,
      sim_need_projecting_solute = False,
      sim_nb_iterations = 4,
      sim_nb_iterations_between_compute_derived_quantities = 2,
      sim_nb_iterations_between_exports = 1,
      sim_nb_iterations_between_export_derived_quantities = None,
      sim_exports = []\<rparr>"

definition example_quantity_types :: "string list" where
  "example_quantity_types =
     [''surface_flux'', ''average_volume'', ''minimum_volume'', ''maximum_volume'',
      ''total_volume'', ''total_surface'']"

definition example_field_types :: "string list" where
  "example_field_types = [''solute'', ''retention'', ''T'']"

section \<open>The retention and its extrema\<close>

text \<open>
  The retention is the sum of the mobile and the trapped concentrations. Its
  value at a degree of freedom of a cell is the sum of the values of the component
  functions at that degree of freedom of the cell (the components number the
  dofs of a cell in the same order, each with its own dofs when they are the parts
  of one mixed function); its values over a subdomain are those at the degrees of
  freedom of the marked cells.
\<close>

definition retention_values :: "dolfin_function list \<Rightarrow> int list \<Rightarrow> int \<Rightarrow> real set" where
  "retention_values fs markers vol =
     {sum_list (map (\<lambda>f. f_vector f ! (f_cell_dofs f c ! j)) fs) | c j.
        c < length markers \<and> markers ! c = vol \<and> j < length (f_cell_dofs (hd fs) c)}"

text \<open>
  A mobile and a trapped concentration, the two parts of one mixed function on a
  single cell with two nodes. The shared vector holds, node by node, the mobile
  and the trapped value: 0 and 1 at the first node, 1 and 0 at the second, so that
  the retention is 1 at both nodes.
\<close>

definition example_mobile :: dolfin_function where
  "example_mobile = \<lparr>f_vector = [0, 1, 1, 0], f_cell_dofs = (\<lambda>c. [0, 2])\<rparr>"

definition example_trapped :: dolfin_function where
  "example_trapped = \<lparr>f_vector = [0, 1, 1, 0], f_cell_dofs = (\<lambda>c. [1, 3])\<rparr>"

definition retention_request :: parameters where
  "retention_request =
     \<lparr>par_exports = Some
        \<lparr>ex_derived_quantities = Some
           [(''minimum_volume'',
               Entries [\<lparr>e_field = Some (FieldStr ''retention''), e_surfaces = None, e_volumes = Some [1]\<rparr>]),
            (''maximum_volume'',
               Entries [\<lparr>e_field = Some (FieldStr ''retention''), e_surfaces = None, e_volumes = Some [1]\<rparr>])],
         ex_txt = False\<rparr>,
      par_soret = None\<rparr>"

definition retention_solutions :: "nat field list" where
  "retention_solutions =
     [Function example_mobile, Function example_trapped,
      UflSum (Function example_mobile) (Function example_trapped), Function example_mobile]"

section \<open>The solution a field denotes\<close>

text \<open>
  The solutions handed to \<open>derived_quantities\<close> are the solute, the traps in their
  order, the retention and the temperature. A field is requested by name or by
  number: \<open>solute\<close> is the first of the solutions, \<open>retention\<close> the last but one,
  \<open>T\<close> the last, and the number \<open>i\<close> of a trap, given as an integer or as its
  decimal numeral, the solution at position \<open>i\<close>, for \<open>1 \<le> i < n - 2\<close> with \<open>n\<close>
  the number of solutions. Nothing else denotes a solution.
\<close>

definition solution_of_field :: "'p field list \<Rightarrow> field_key \<Rightarrow> 'p field option" where
  "solution_of_field solutions k =
     (if solutions = [] then None
      else
        (case k of
           FieldInt i \<Rightarrow>
             if 1 \<le> i \<and> i < int (length solutions) - 2 then Some (solutions ! nat i) else None
         | FieldStr s \<Rightarrow>
             if s = ''solute'' then Some (solutions ! 0)
             else if s = ''retention'' then Some (solutions ! (length solutions - 2))
             else if s = ''T'' then Some (solutions ! (length solutions - 1))
             else map_option (\<lambda>i. solutions ! i)
                    (find (\<lambda>i. str_nat i = s) [1..<length solutions - 2])))"

text \<open>
  Four solutions that differ: functions with the constant values 1 (the solute), 2
  (the trap 1) and 5 (the temperature) on one cell with two nodes, and the sum of
  the first two (the retention). The stand-in for \<open>assemble\<close> integrates a field by
  adding up its nodal values and gives 2 for the measure of a volume, so that the
  average of each field is its constant value. The averages of the four fields
  over the volume 7 are requested.
\<close>

definition constant_function :: "real \<Rightarrow> dolfin_function" where
  "constant_function v = \<lparr>f_vector = [v, v], f_cell_dofs = (\<lambda>c. [0, 1])\<rparr>"

fun field_integral :: "nat field \<Rightarrow> real" where
  "field_integral (Function u) = sum_list (f_vector u)"
| "field_integral (UflSum a b) = field_integral a + field_integral b"
| "field_integral (UflProduct a p) = real p * field_integral a"
| "field_integral IntZero = 0"

fun integrating_assemble :: "nat form \<Rightarrow> real" where
  "integrating_assemble (FluxForm prop sol markers surf) = 0"
| "integrating_assemble (SoretFluxForm prop sol Q T markers surf) = 0"
| "integrating_assemble (VolumeForm sol markers vol) = field_integral sol"
| "integrating_assemble (UnitVolumeForm markers vol) = 2"
| "integrating_assemble (SurfaceForm sol markers surf) = field_integral sol"

definition average_solutions :: "nat field list" where
  "average_solutions =
     [Function (constant_function 1), Function (constant_function 2),
      UflSum (Function (constant_function 1)) (Function (constant_function 2)),
      Function (constant_function 5)]"

definition average_dq :: dq_dict where
  "average_dq =
     [(''average_volume'',
         Entries [\<lparr>e_field = Some (FieldStr ''solute''), e_surfaces = None, e_volumes = Some [7]\<rparr>,
                  \<lparr>e_field = Some (FieldInt 1), e_surfaces = None, e_volumes = Some [7]\<rparr>,
                  \<lparr>e_field = Some (FieldStr ''retention''), e_surfaces = None, e_volumes = Some [7]\<rparr>,
                  \<lparr>e_field = Some (FieldStr ''T''), e_surfaces = None, e_volumes = Some [7]\<rparr>])]"

definition average_parameters :: parameters where
  "average_parameters =
     \<lparr>par_exports = Some \<lparr>ex_derived_quantities = Some average_dq, ex_txt = False\<rparr>,
      par_soret = None\<rparr>"

section \<open>Properties of the XDMF export\<close>

lemma check_elements_None: "check_elements vs = None \<longleftrightarrow> list_all isinstance_Species vs"
  by (induction vs) auto

lemma check_elements_Some: "check_elements vs = Some e \<Longrightarrow> e = TypeError"
  by (induction vs) (auto split: if_splits)

lemma field_setter_accepted:
  assumes "accepted_field v"
  shows "field_setter v x = (None, x\<lparr>x_field := Some (as_species_list v)\<rparr>)"
    and "list_all isinstance_Species (as_species_list v)"
  using assms check_elements_None [of "as_species_list v"]
  by (cases v; simp)+

lemma field_setter_rejected:
  assumes "\<not> accepted_field v"
  shows "field_setter v x = (Some TypeError, x)"
proof (cases v)
  case (PyList vs)
  with assms have "check_elements vs \<noteq> None" by (simp add: check_elements_None)
  then obtain e where e: "check_elements vs = Some e" by auto
  then have "e = TypeError" by (rule check_elements_Some)
  with e PyList show ?thesis by simp
qed (use assms in simp_all)

text \<open>
  \<^bold>\<open>C9.\<close> The field setter of XDMFExport accepts a single Species or a list of Species
  and then stores a list of Species (a single Species wrapped in a one-element list,
  a list as it is); on every other input, a list with a non-Species element included,
  it raises TypeError and the export is left as it was.
\<close>

theorem field_setter_stores_species_list:
  "(accepted_field v \<longrightarrow>
      field_setter v x = (None, x\<lparr>x_field := Some (as_species_list v)\<rparr>)
      \<and> list_all isinstance_Species (as_species_list v))
   \<and> (\<not> accepted_field v \<longrightarrow> field_setter v x = (Some TypeError, x))"
  using field_setter_accepted [of v] field_setter_rejected [of v x] by blast

theorem field_setter_stores_species_list_witness:
  "field_setter (Species 0) \<lparr>x_filename = ''out.xdmf'', x_field = None, x_mesh_written = False, x_writer = None\<rparr>
     = (None, \<lparr>x_filename = ''out.xdmf'', x_field = Some [Species 0], x_mesh_written = False, x_writer = None\<rparr>)
   \<and> field_setter (PyList [Species 0, PyInt 1])
        \<lparr>x_filename = ''out.xdmf'', x_field = Some [Species 2], x_mesh_written = False, x_writer = None\<rparr>
     = (Some TypeError, \<lparr>x_filename = ''out.xdmf'', x_field = Some [Species 2], x_mesh_written = False, x_writer = None\<rparr>)"
  using field_setter_stores_species_list [of "Species 0"
      "\<lparr>x_filename = ''out.xdmf'', x_field = None, x_mesh_written = False, x_writer = None\<rparr>"]
    field_setter_stores_species_list [of "PyList [Species 0, PyInt 1]"
      "\<lparr>x_filename = ''out.xdmf'', x_field = Some [Species 2], x_mesh_written = False, x_writer = None\<rparr>"]
  by simp

lemma write_loop_ok:
  "x_writer x = Some ops \<Longrightarrow> list_all (has_solution h) fs \<Longrightarrow>
   write_loop fs t h x = (None, x\<lparr>x_writer := Some (ops @ field_writes fs (t, h))\<rparr>)"
proof (induction fs arbitrary: x ops)
  case Nil
  then show ?case by (simp add: field_writes_def)
next
  case (Cons f fs)
  from Cons.prems(2) have f: "has_solution h f" and fs: "list_all (has_solution h) fs" by simp_all
  from f obtain r s u where r: "f = Species r" "h r = Some s" "post_processing_solution s = Some u"
    by (cases f) (auto simp: has_solution_def split: option.splits)
  let ?x = "x\<lparr>x_writer := Some (ops @ [WriteFunction u t])\<rparr>"
  have "write_loop (f # fs) t h x = write_loop fs t h ?x"
    using r Cons.prems(1) by simp
  also have "\<dots> = (None, ?x\<lparr>x_writer := Some ((ops @ [WriteFunction u t]) @ field_writes fs (t, h))\<rparr>)"
    by (rule Cons.IH) (simp_all add: fs)
  finally show ?case using r by (simp add: field_writes_def)
qed

lemma xdmf_write_first:
  assumes "\<not> x_mesh_written x" "x_writer x = Some ops" "x_field x = Some fs" "fs \<noteq> []"
    and "list_all (has_solution h) fs"
  shows "xdmf_write t h x =
     (None, x\<lparr>x_writer := Some (ops @ WriteMesh (fn_mesh (the (solution_of h (hd fs)))) # field_writes fs (t, h)),
              x_mesh_written := True\<rparr>)"
proof -
  from assms(4) obtain f rest where fs: "fs = f # rest" by (cases fs) auto
  with assms(5) have "has_solution h f" by simp
  then obtain r s u where r: "f = Species r" "h r = Some s" "post_processing_solution s = Some u"
    by (cases f) (auto simp: has_solution_def split: option.splits)
  let ?x = "x\<lparr>x_writer := Some (ops @ [WriteMesh (fn_mesh u)]), x_mesh_written := True\<rparr>"
  have m: "write_mesh_once h x = (None, ?x)"
    using assms(1-3) fs r by (simp add: write_mesh_once_def)
  have "write_loop fs t h ?x = (None, ?x\<lparr>x_writer := Some ((ops @ [WriteMesh (fn_mesh u)]) @ field_writes fs (t, h))\<rparr>)"
    by (rule write_loop_ok) (simp_all add: assms(5))
  then show ?thesis using m assms(3) fs r by (simp add: xdmf_write_def)
qed

lemma xdmf_write_later:
  assumes "x_mesh_written x" "x_writer x = Some ops" "x_field x = Some fs"
    and "list_all (has_solution h) fs"
  shows "xdmf_write t h x = (None, x\<lparr>x_writer := Some (ops @ field_writes fs (t, h))\<rparr>)"
  using assms write_loop_ok [of x ops h fs t] by (simp add: xdmf_write_def write_mesh_once_def)

lemma xdmf_writes_later:
  "x_mesh_written x \<Longrightarrow> x_writer x = Some ops \<Longrightarrow> x_field x = Some fs \<Longrightarrow>
   list_all (\<lambda>(t, h). list_all (has_solution h) fs) calls \<Longrightarrow>
   xdmf_writes calls x = (None, x\<lparr>x_writer := Some (ops @ concat (map (field_writes fs) calls))\<rparr>)"
proof (induction calls arbitrary: x ops)
  case Nil
  then show ?case by simp
next
  case (Cons c calls)
  obtain t h where c: "c = (t, h)" by (cases c)
  let ?x = "x\<lparr>x_writer := Some (ops @ field_writes fs (t, h))\<rparr>"
  have w: "xdmf_write t h x = (None, ?x)"
    using Cons.prems c by (intro xdmf_write_later) simp_all
  have "xdmf_writes calls ?x = (None, ?x\<lparr>x_writer := Some ((ops @ field_writes fs (t, h)) @ concat (map (field_writes fs) calls))\<rparr>)"
    using Cons.prems by (intro Cons.IH) simp_all
  then show ?case using w c by simp
qed

lemma filter_WriteMesh_field_writes: "filter is_WriteMesh (concat (map (field_writes fs) calls)) = []"
  by (induction calls) (auto simp: field_writes_def filter_empty_conv)

lemma XDMFExport_init_state:
  assumes "XDMFExport_init base_init filename field = Inr x0"
  shows "\<not> x_mesh_written x0 \<and> x_writer x0 = None \<and> x_field x0 = Some (as_species_list field) \<and> accepted_field field"
proof -
  from assms obtain fname where b: "base_init filename = Inr fname"
    by (auto simp: XDMFExport_init_def split: sum.splits)
  let ?x = "\<lparr>x_filename = fname, x_field = None, x_mesh_written = False, x_writer = None\<rparr>"
  from assms b obtain x where s: "field_setter field ?x = (None, x)" and x0: "x0 = x\<lparr>x_mesh_written := False\<rparr>"
    by (auto simp: XDMFExport_init_def split: prod.splits option.splits)
  have acc: "accepted_field field"
    using s field_setter_rejected [of field ?x] by auto
  with s x0 show ?thesis
    using field_setter_accepted(1) [of field ?x] by auto
qed


text \<open>
  \<^bold>\<open>C10.\<close> Take an XDMFExport as \<open>__init__\<close> and \<open>define_writer\<close> leave it, with at least
  one field, and a sequence of calls \<open>write(t)\<close> in each of which every listed species
  has a post-processing solution. Then no call raises; the first call writes the mesh
  (of the first field's solution) and then the solution of each listed field once at
  its time; every later call writes the solution of each listed field once at its
  time and no mesh; so the writer has received exactly one mesh.
\<close>

theorem xdmf_write_mesh_exactly_once:
  assumes init: "XDMFExport_init base_init filename field = Inr x0"
    and fs: "x_field x0 = Some fs" "fs \<noteq> []"
    and sols: "list_all (\<lambda>(t, h). list_all (has_solution h) fs) ((t, h) # calls)"
  shows "\<exists>x1 x'. xdmf_write t h (define_writer x0) = (None, x1)
           \<and> x_writer x1 = Some (WriteMesh (fn_mesh (the (solution_of h (hd fs)))) # field_writes fs (t, h))
           \<and> xdmf_writes ((t, h) # calls) (define_writer x0) = (None, x')
           \<and> x_writer x' = Some (WriteMesh (fn_mesh (the (solution_of h (hd fs))))
                                   # concat (map (field_writes fs) ((t, h) # calls)))
           \<and> length (filter is_WriteMesh (the (x_writer x'))) = 1"
proof -
  let ?x = "define_writer x0"
  let ?m = "WriteMesh (fn_mesh (the (solution_of h (hd fs))))"
  let ?x1 = "?x\<lparr>x_writer := Some ([] @ ?m # field_writes fs (t, h)), x_mesh_written := True\<rparr>"
  let ?x' = "?x1\<lparr>x_writer := Some ((?m # field_writes fs (t, h)) @ concat (map (field_writes fs) calls))\<rparr>"
  from XDMFExport_init_state [OF init] have nw: "\<not> x_mesh_written ?x"
    by (simp add: define_writer_def)
  have w: "x_writer ?x = Some []" and f: "x_field ?x = Some fs"
    using fs(1) by (simp_all add: define_writer_def)
  from sols have h: "list_all (has_solution h) fs"
    and rest: "list_all (\<lambda>(t, h). list_all (has_solution h) fs) calls" by simp_all
  have first: "xdmf_write t h ?x = (None, ?x1)"
    by (rule xdmf_write_first [OF nw w f fs(2) h])
  have later: "xdmf_writes calls ?x1 = (None, ?x')"
    using rest f by (intro xdmf_writes_later) simp_all
  have all: "xdmf_writes ((t, h) # calls) ?x = (None, ?x')"
    using first later by simp
  have once: "length (filter is_WriteMesh (the (x_writer ?x'))) = 1"
    using filter_WriteMesh_field_writes [of fs "(t, h) # calls"] by simp
  show ?thesis
    using first all once by (intro exI [of _ ?x1] exI [of _ ?x']) simp
qed

theorem xdmf_write_mesh_exactly_once_witness:
  "XDMFExport_init example_base_init (PyStr ''test.xdmf'') (Species 0) = Inr example_export
   \<and> xdmf_writes [(0, example_heap), (1, example_heap)] (define_writer example_export) =
       (None, example_export\<lparr>x_mesh_written := True,
          x_writer := Some [WriteMesh 7, WriteFunction \<lparr>fn_id = 1, fn_mesh = 7\<rparr> 0,
                            WriteFunction \<lparr>fn_id = 1, fn_mesh = 7\<rparr> 1]\<rparr>)"
proof -
  have i: "XDMFExport_init example_base_init (PyStr ''test.xdmf'') (Species 0) = Inr example_export"
    by (simp add: XDMFExport_init_def example_base_init_def example_export_def)
  have f: "x_field example_export = Some [Species 0]" "[Species 0] \<noteq> []"
    by (simp_all add: example_export_def)
  have s: "list_all (\<lambda>(t, h). list_all (has_solution h) [Species 0])
             ((0, example_heap) # [(1, example_heap)])"
    by (simp add: has_solution_def example_heap_def)
  from xdmf_write_mesh_exactly_once [OF i f s]
  obtain x' where "xdmf_writes [(0, example_heap), (1, example_heap)] (define_writer example_export) = (None, x')"
    and "x_writer x' = Some (WriteMesh (fn_mesh (the (solution_of example_heap (hd [Species 0]))))
           # concat (map (field_writes [Species 0]) [(0, example_heap), (1, example_heap)]))"
    by blast
  moreover have "xdmf_writes [(0, example_heap), (1, example_heap)] (define_writer example_export) =
       (None, example_export\<lparr>x_mesh_written := True,
          x_writer := Some [WriteMesh 7, WriteFunction \<lparr>fn_id = 1, fn_mesh = 7\<rparr> 0,
                            WriteFunction \<lparr>fn_id = 1, fn_mesh = 7\<rparr> 1]\<rparr>)"
    by (simp add: xdmf_write_def write_mesh_once_def define_writer_def example_export_def example_heap_def)
  ultimately show ?thesis using i by simp
qed

section \<open>Properties of the surface quantity export\<close>










section \<open>Properties of the hydrogen transport problem\<close>

lemma assign_entities_length: "length (assign_entities tags entities value) = length tags"
  unfolding assign_entities_def by (induction entities arbitrary: tags) simp_all


lemma wrap_int32_id: "in_int32 i \<Longrightarrow> wrap_int32 i = i"
  by (simp add: in_int32_def wrap_int32_def)


lemma to_int32_id: "in_int32 i \<Longrightarrow> to_int32 i = Inr i"
  using wrap_int32_id [of i] by (simp add: to_int32_def in_int32_def)


lemma array_int32_id: "list_all in_int32 xs \<Longrightarrow> array_int32 xs = Inr xs"
  by (induction xs) (simp_all add: to_int32_id)



lemma mark_subdomains_volume_subdomains:
  assumes "mark_subdomains L m V subs acc = Inr acc'"
  shows "acc_volume_subdomains acc' = acc_volume_subdomains acc @ volumes_of subs"
  using assms
  by (induction L m V subs acc rule: mark_subdomains.induct)
     (auto simp: Let_def split: if_splits option.splits sum.splits)


lemma example_function_space: "define_function_space example_problem = Inr example_with_space"
  by (simp add: define_function_space_def example_problem_def example_with_space_def)




lemma mark_subdomains_ok:
  "markers_ok L m V subs \<Longrightarrow> length (tags_volumes acc) = num_cells m \<Longrightarrow>
   list_all in_int32 (tags_facets acc) \<Longrightarrow>
   \<exists>acc'. mark_subdomains L m (Some V) subs acc = Inr acc' \<and> list_all in_int32 (tags_facets acc')"
proof (induction subs arbitrary: acc)
  case Nil
  then show ?case by simp
next
  case (Cons sub subs)
  show ?case
  proof (cases sub)
    case (Surface1D s)
    let ?acc = "acc\<lparr>dofs_facets := dofs_facets acc @ [locate_dof L s V],
                 tags_facets := tags_facets acc @ [s_id s]\<rparr>"
    have "\<exists>acc'. mark_subdomains L m (Some V) subs ?acc = Inr acc' \<and> list_all in_int32 (tags_facets acc')"
      using Cons.prems Surface1D by (intro Cons.IH) simp_all
    then show ?thesis using Surface1D by simp
  next
    case (Volume1D v)
    let ?acc = "acc\<lparr>acc_volume_subdomains := acc_volume_subdomains acc @ [v],
               tags_volumes := assign_entities (tags_volumes acc)
                 (locate_subdomain_entities L v m (topology_dim m)) (v_id v)\<rparr>"
    have "\<exists>acc'. mark_subdomains L m (Some V) subs ?acc = Inr acc' \<and> list_all in_int32 (tags_facets acc')"
      using Cons.prems Volume1D by (intro Cons.IH) (simp_all add: assign_entities_length)
    moreover have "to_int32 (v_id v) = Inr (v_id v)"
      using Cons.prems Volume1D by (intro to_int32_id) simp
    ultimately show ?thesis using Volume1D Cons.prems by (simp add: Let_def)
  next
    case (OtherSubdomain i)
    with Cons show ?thesis by simp
  qed
qed

lemma define_markers_and_measures_ok:
  assumes "p_mesh p = Some m" "p_function_space p = Some V" "markers_ok L m V (p_subdomains p)"
  shows "\<exists>p' dx'. define_markers_and_measures L p = Inr p'
     \<and> p_volume_subdomains p' = p_volume_subdomains p @ volumes_of (p_subdomains p)
     \<and> p_dx p' = Some dx' \<and> p_mesh p' = Some m \<and> p_function_space p' = Some V
     \<and> p_species p' = p_species p \<and> p_sources p' = p_sources p
     \<and> p_temperature p' = p_temperature p \<and> p_next_id p' = p_next_id p"
proof -
  let ?acc0 = "\<lparr>dofs_facets = [], tags_facets = [], tags_volumes = replicate (num_cells m) 0,
                 acc_volume_subdomains = p_volume_subdomains p\<rparr>"
  from mark_subdomains_ok [OF assms(3), of ?acc0]
  obtain acc where run: "mark_subdomains L m (Some V) (p_subdomains p) ?acc0 = Inr acc"
    and t: "list_all in_int32 (tags_facets acc)"
    by auto
  from mark_subdomains_volume_subdomains [OF run]
  have vs: "acc_volume_subdomains acc = p_volume_subdomains p @ volumes_of (p_subdomains p)" by simp
  show ?thesis
    using assms(1,2) run array_int32_id [OF t] vs by (simp add: define_markers_and_measures_def Let_def)
qed






lemma assign_loop_props:
  "length (fst (assign_loop V n sps)) = length sps
   \<and> list_all functions_assigned (fst (assign_loop V n sps))"
proof (induction sps arbitrary: n)
  case Nil
  then show ?case by simp
next
  case (Cons spe sps)
  obtain rest' n' where r: "assign_loop V (n + 2) sps = (rest', n')"
    by (cases "assign_loop V (n + 2) sps")
  with Cons [of "n + 2"] show ?case by (simp add: functions_assigned_def)
qed

lemma assign_functions_to_species_ok:
  assumes "length (p_species p) \<le> 1" "p_function_space p = Some V"
  shows "\<exists>p'. assign_functions_to_species p = Inr p'
     \<and> length (p_species p') = length (p_species p) \<and> list_all functions_assigned (p_species p')
     \<and> p_volume_subdomains p' = p_volume_subdomains p \<and> p_dx p' = p_dx p \<and> p_mesh p' = p_mesh p
     \<and> p_sources p' = p_sources p \<and> p_temperature p' = p_temperature p"
proof (cases "p_species p = []")
  case True
  then show ?thesis by (simp add: assign_functions_to_species_def)
next
  case False
  obtain sps n where a: "assign_loop V (p_next_id p) (p_species p) = (sps, n)"
    by (cases "assign_loop V (p_next_id p) (p_species p)")
  with assign_loop_props [of V "p_next_id p" "p_species p"]
  have "length sps = length (p_species p)" "list_all functions_assigned sps" by simp_all
  then show ?thesis using assms False a by (simp add: assign_functions_to_species_def)
qed

lemma volume_loop_ok:
  assumes "functions_assigned spe"
  shows "list_all (\<lambda>vol. get_diffusion_coefficient L (v_material vol) m T = Inr (Dc vol)) vols \<Longrightarrow>
   volume_loop L m T (Some dx') (1 / 20) spe vols form =
     Inr (form @ concat (map (\<lambda>vol. subdomain_terms (Dc vol) dx' spe vol) vols))"
proof (induction vols arbitrary: form)
  case Nil
  then show ?case by simp
next
  case (Cons vol vols)
  from assms obtain u u_n v where s: "solution spe = Some u" "prev_solution spe = Some u_n"
    "test_function spe = Some v" by (auto simp: functions_assigned_def)
  from Cons.prems have D: "get_diffusion_coefficient L (v_material vol) m T = Inr (Dc vol)"
    and rest: "list_all (\<lambda>vol. get_diffusion_coefficient L (v_material vol) m T = Inr (Dc vol)) vols"
    by simp_all
  show ?case using D s Cons.IH [OF rest] by (simp add: subdomain_terms_def)
qed

lemma species_loop_ok:
  "list_all functions_assigned sps \<Longrightarrow>
   list_all (\<lambda>vol. get_diffusion_coefficient L (v_material vol) m T = Inr (Dc vol)) vols \<Longrightarrow>
   species_loop L m T (Some dx') (1 / 20) vols sps form =
     Inr (form @ concat (map (\<lambda>spe. concat (map (\<lambda>vol. subdomain_terms (Dc vol) dx' spe vol) vols)) sps))"
proof (induction sps arbitrary: form)
  case Nil
  then show ?case by simp
next
  case (Cons spe sps)
  then show ?case using volume_loop_ok [of spe L m T Dc vols dx' form] by simp
qed

lemma create_formulation_ok:
  assumes "length (p_sources p) \<le> 1" "length (p_species p) \<le> 1" "p_mesh p = Some m"
    and "p_dx p = Some dx'" "list_all functions_assigned (p_species p)"
    and "list_all (\<lambda>vol. get_diffusion_coefficient L (v_material vol) m (p_temperature p) = Inr (Dc vol))
           (p_volume_subdomains p)"
  shows "create_formulation L p =
     Inr (p\<lparr>p_dt := Some (1 / 20),
            p_formulation := Some (concat (map (\<lambda>spe. concat (map (\<lambda>vol. subdomain_terms (Dc vol) dx' spe vol)
                 (p_volume_subdomains p))) (p_species p)))\<rparr>)"
  using assms species_loop_ok [OF assms(5,6), of dx' "[]"]
  by (simp add: create_formulation_def)


lemma initialise_ok:
  assumes mesh: "p_mesh p = Some m"
    and ok: "markers_ok L m \<lparr>fs_mesh = mesh_id m, fs_family = ''CG'', fs_degree = 1\<rparr> (p_subdomains p)"
    and D: "list_all (\<lambda>vol. get_diffusion_coefficient L (v_material vol) m (p_temperature p) = Inr (Dc vol))
             (p_volume_subdomains p @ volumes_of (p_subdomains p))"
    and few: "length (p_species p) \<le> 1" "length (p_sources p) \<le> 1"
  shows "\<exists>p' dx'. initialise L p = Inr p' \<and> p_dx p' = Some dx'
      \<and> p_volume_subdomains p' = p_volume_subdomains p @ volumes_of (p_subdomains p)
      \<and> length (p_species p') = length (p_species p)
      \<and> list_all functions_assigned (p_species p')
      \<and> p_formulation p' = Some (concat (map (\<lambda>spe. concat (map (\<lambda>vol. subdomain_terms (Dc vol) dx' spe vol)
             (p_volume_subdomains p'))) (p_species p')))"
proof -
  let ?V = "\<lparr>fs_mesh = mesh_id m, fs_family = ''CG'', fs_degree = 1\<rparr>"
  let ?p1 = "p\<lparr>p_function_space := Some ?V\<rparr>"
  have s1: "define_function_space p = Inr ?p1"
    using mesh by (simp add: define_function_space_def)
  from define_markers_and_measures_ok [of ?p1 m ?V L] mesh ok
  obtain p2 dx' where s2: "define_markers_and_measures L ?p1 = Inr p2"
    and p2: "p_volume_subdomains p2 = p_volume_subdomains p @ volumes_of (p_subdomains p)"
      "p_dx p2 = Some dx'" "p_mesh p2 = Some m" "p_function_space p2 = Some ?V"
      "p_species p2 = p_species p" "p_sources p2 = p_sources p" "p_temperature p2 = p_temperature p"
    by auto
  from assign_functions_to_species_ok [of p2 ?V] few p2
  obtain p3 where s3: "assign_functions_to_species p2 = Inr p3"
    and p3: "length (p_species p3) = length (p_species p)" "list_all functions_assigned (p_species p3)"
      "p_volume_subdomains p3 = p_volume_subdomains p @ volumes_of (p_subdomains p)"
      "p_dx p3 = Some dx'" "p_mesh p3 = Some m" "p_sources p3 = p_sources p"
      "p_temperature p3 = p_temperature p"
    by auto
  let ?form = "concat (map (\<lambda>spe. concat (map (\<lambda>vol. subdomain_terms (Dc vol) dx' spe vol)
                 (p_volume_subdomains p3))) (p_species p3))"
  have s4: "create_formulation L p3 = Inr (p3\<lparr>p_dt := Some (1 / 20), p_formulation := Some ?form\<rparr>)"
    using few p3 D by (intro create_formulation_ok) simp_all
  have "initialise L p = Inr (p3\<lparr>p_dt := Some (1 / 20), p_formulation := Some ?form\<rparr>)"
    using s1 s2 s3 s4 by (simp add: initialise_def)
  then show ?thesis using p3 by simp
qed

lemma initialise_not_implemented:
  assumes mesh: "p_mesh p = Some m"
    and ok: "markers_ok L m \<lparr>fs_mesh = mesh_id m, fs_family = ''CG'', fs_degree = 1\<rparr> (p_subdomains p)"
    and many: "length (p_species p) > 1 \<or> length (p_sources p) > 1"
  shows "initialise L p = Inl NotImplementedError"
proof -
  let ?V = "\<lparr>fs_mesh = mesh_id m, fs_family = ''CG'', fs_degree = 1\<rparr>"
  let ?p1 = "p\<lparr>p_function_space := Some ?V\<rparr>"
  have s1: "define_function_space p = Inr ?p1"
    using mesh by (simp add: define_function_space_def)
  from define_markers_and_measures_ok [of ?p1 m ?V L] mesh ok
  obtain p2 where s2: "define_markers_and_measures L ?p1 = Inr p2"
    and p2: "p_function_space p2 = Some ?V" "p_species p2 = p_species p" "p_sources p2 = p_sources p"
    by auto
  show ?thesis
  proof (cases "length (p_species p) > 1")
    case True
    with p2 have "assign_functions_to_species p2 = Inl NotImplementedError"
      by (simp add: assign_functions_to_species_def)
    with s1 s2 show ?thesis by (simp add: initialise_def)
  next
    case False
    with many have src: "length (p_sources p) > 1" by simp
    from False have "length (p_species p) \<le> 1" by simp
    from assign_functions_to_species_ok [OF _ p2(1)] this p2
    obtain p3 where s3: "assign_functions_to_species p2 = Inr p3" and "p_sources p3 = p_sources p"
      by auto
    with src have "create_formulation L p3 = Inl NotImplementedError"
      by (simp add: create_formulation_def)
    with s1 s2 s3 show ?thesis by (simp add: initialise_def)
  qed
qed

text \<open>
  \<^bold>\<open>C1, as the code has it.\<close> For a problem whose mesh is set, whose subdomains are
  located inside the mesh with ids that fit 32 bits, and whose materials yield their
  diffusion coefficients at the temperature: with at most one species and no
  source, \<open>initialise\<close> returns, and the formulation is, for each species and each
  volume subdomain in turn, the diffusion term \<open>dot(D*grad(u), grad(v))*dx(id)\<close>
  followed by the transient term \<open>((u - u_n)/dt)*v*dx(id)\<close>, and nothing else; with
  more than one species or more than one source, \<open>initialise\<close> raises
  NotImplementedError.
\<close>

theorem initialise_formulation:
  assumes "p_mesh p = Some m"
    and "markers_ok L m \<lparr>fs_mesh = mesh_id m, fs_family = ''CG'', fs_degree = 1\<rparr> (p_subdomains p)"
    and "list_all (\<lambda>vol. get_diffusion_coefficient L (v_material vol) m (p_temperature p) = Inr (Dc vol))
             (p_volume_subdomains p @ volumes_of (p_subdomains p))"
  shows "(length (p_species p) \<le> 1 \<and> p_sources p = [] \<longrightarrow>
      (\<exists>p' dx'. initialise L p = Inr p' \<and> p_dx p' = Some dx'
        \<and> p_volume_subdomains p' = p_volume_subdomains p @ volumes_of (p_subdomains p)
        \<and> length (p_species p') = length (p_species p)
        \<and> list_all functions_assigned (p_species p')
        \<and> p_formulation p' = Some (concat (map (\<lambda>spe. concat (map (\<lambda>vol. subdomain_terms (Dc vol) dx' spe vol)
               (p_volume_subdomains p'))) (p_species p')))))
    \<and> (length (p_species p) > 1 \<or> length (p_sources p) > 1 \<longrightarrow>
          initialise L p = Inl NotImplementedError)"
proof (intro conjI impI)
  assume "length (p_species p) \<le> 1 \<and> p_sources p = []"
  then have "length (p_species p) \<le> 1" "length (p_sources p) \<le> 1" by simp_all
  then show "\<exists>p' dx'. initialise L p = Inr p' \<and> p_dx p' = Some dx'
        \<and> p_volume_subdomains p' = p_volume_subdomains p @ volumes_of (p_subdomains p)
        \<and> length (p_species p') = length (p_species p)
        \<and> list_all functions_assigned (p_species p')
        \<and> p_formulation p' = Some (concat (map (\<lambda>spe. concat (map (\<lambda>vol. subdomain_terms (Dc vol) dx' spe vol)
               (p_volume_subdomains p'))) (p_species p')))"
    by (rule initialise_ok [OF assms])
next
  assume "length (p_species p) > 1 \<or> length (p_sources p) > 1"
  then show "initialise L p = Inl NotImplementedError"
    by (rule initialise_not_implemented [OF assms(1,2)])
qed

lemma example_markers_ok:
  "markers_ok example_library \<lparr>mesh_id = 0, topology_dim = 1, num_cells = 4\<rparr>
     \<lparr>fs_mesh = 0, fs_family = ''CG'', fs_degree = 1\<rparr> (p_subdomains example_problem)"
  by (simp add: example_problem_def example_library_def in_int32_def)

text \<open>
  The claim C1 as it was stated promises that the assembly succeeds with a mobile
  and a trap species, and with sources: on the concrete problem with the species H
  and Trap, and on the one with two sources, \<open>initialise\<close> raises
  NotImplementedError.
\<close>

theorem initialise_two_species_counterexample:
  "initialise example_library
     (example_problem\<lparr>p_species := [example_species ''H'', example_species ''Trap'']\<rparr>)
   = Inl NotImplementedError
   \<and> initialise example_library (example_problem\<lparr>p_sources := [Source 0, Source 1]\<rparr>)
   = Inl NotImplementedError"
proof (rule conjI; rule initialise_not_implemented)
  show "p_mesh (example_problem\<lparr>p_species := [example_species ''H'', example_species ''Trap'']\<rparr>)
      = Some \<lparr>mesh_id = 0, topology_dim = 1, num_cells = 4\<rparr>"
    by (simp add: example_problem_def)
  show "markers_ok example_library \<lparr>mesh_id = 0, topology_dim = 1, num_cells = 4\<rparr>
     \<lparr>fs_mesh = mesh_id \<lparr>mesh_id = 0, topology_dim = 1, num_cells = 4\<rparr>, fs_family = ''CG'', fs_degree = 1\<rparr>
     (p_subdomains (example_problem\<lparr>p_species := [example_species ''H'', example_species ''Trap'']\<rparr>))"
    using example_markers_ok by simp
  show "1 < length (p_species (example_problem\<lparr>p_species := [example_species ''H'', example_species ''Trap'']\<rparr>))
     \<or> 1 < length (p_sources (example_problem\<lparr>p_species := [example_species ''H'', example_species ''Trap'']\<rparr>))"
    by simp
  show "p_mesh (example_problem\<lparr>p_sources := [Source 0, Source 1]\<rparr>)
      = Some \<lparr>mesh_id = 0, topology_dim = 1, num_cells = 4\<rparr>"
    by (simp add: example_problem_def)
  show "markers_ok example_library \<lparr>mesh_id = 0, topology_dim = 1, num_cells = 4\<rparr>
     \<lparr>fs_mesh = mesh_id \<lparr>mesh_id = 0, topology_dim = 1, num_cells = 4\<rparr>, fs_family = ''CG'', fs_degree = 1\<rparr>
     (p_subdomains (example_problem\<lparr>p_sources := [Source 0, Source 1]\<rparr>))"
    using example_markers_ok by simp
  show "1 < length (p_species (example_problem\<lparr>p_sources := [Source 0, Source 1]\<rparr>))
     \<or> 1 < length (p_sources (example_problem\<lparr>p_sources := [Source 0, Source 1]\<rparr>))"
    by simp
qed

theorem initialise_formulation_witness:
  "\<exists>p' dx'. initialise example_library example_problem = Inr p' \<and> p_dx p' = Some dx'
      \<and> p_volume_subdomains p' =
          [\<lparr>v_id = 1, v_borders = (0, 2), v_material = example_material\<rparr>,
           \<lparr>v_id = 2, v_borders = (1, 3), v_material = example_material\<rparr>]
      \<and> length (p_species p') = 1
      \<and> list_all functions_assigned (p_species p')
      \<and> p_formulation p' = Some (concat (map (\<lambda>spe. concat (map (\<lambda>vol. subdomain_terms (1, 0, 500) dx' spe vol)
             (p_volume_subdomains p'))) (p_species p')))"
proof -
  have m: "p_mesh example_problem = Some \<lparr>mesh_id = 0, topology_dim = 1, num_cells = 4\<rparr>"
    by (simp add: example_problem_def)
  have ok: "markers_ok example_library \<lparr>mesh_id = 0, topology_dim = 1, num_cells = 4\<rparr>
     \<lparr>fs_mesh = mesh_id \<lparr>mesh_id = 0, topology_dim = 1, num_cells = 4\<rparr>, fs_family = ''CG'', fs_degree = 1\<rparr>
     (p_subdomains example_problem)"
    using example_markers_ok by simp
  have D: "list_all (\<lambda>vol. get_diffusion_coefficient example_library (v_material vol)
              \<lparr>mesh_id = 0, topology_dim = 1, num_cells = 4\<rparr> (p_temperature example_problem)
              = Inr ((\<lambda>vol. (1, 0, 500)) vol))
             (p_volume_subdomains example_problem @ volumes_of (p_subdomains example_problem))"
    by (simp add: example_problem_def example_library_def example_material_def)
  from initialise_formulation [OF m ok D] show ?thesis
    by (simp add: example_problem_def)
qed

section \<open>Properties of the post-processing\<close>

lemma set_SubsetIterator:
  "set (SubsetIterator subdomains subd_id) = {c. c < length subdomains \<and> subdomains ! c = subd_id}"
  by (auto simp: SubsetIterator_def)

lemma subd_dofs_marked:
  assumes "\<exists>c < length subdomains. subdomains ! c = subd_id"
  shows "\<exists>dofs. subd_dofs function subdomains subd_id = Inr dofs
     \<and> set dofs = marked_dofs function subdomains subd_id \<and> distinct dofs"
proof -
  from assms have "set (SubsetIterator subdomains subd_id) \<noteq> {}"
    by (auto simp: set_SubsetIterator)
  then have ne: "SubsetIterator subdomains subd_id \<noteq> []" by auto
  have "set (np_unique (concat (map (f_cell_dofs function) (SubsetIterator subdomains subd_id))))
      = marked_dofs function subdomains subd_id"
    by (simp add: np_unique_def marked_dofs_def set_SubsetIterator)
  moreover have "distinct (np_unique (concat (map (f_cell_dofs function) (SubsetIterator subdomains subd_id))))"
    by (simp add: np_unique_def)
  ultimately show ?thesis using ne by (simp add: subd_dofs_def np_hstack_def)
qed

lemma np_max_Max: "vals \<noteq> [] \<Longrightarrow> np_max vals = Inr (Max (set vals))"
proof (cases vals)
  case (Cons x xs)
  then show ?thesis using Max.set_eq_fold [of x xs] by simp
qed simp

lemma np_min_Min: "vals \<noteq> [] \<Longrightarrow> np_min vals = Inr (Min (set vals))"
proof (cases vals)
  case (Cons x xs)
  then show ?thesis using Min.set_eq_fold [of x xs] by simp
qed simp

lemma take_indices_ok:
  "\<forall>d \<in> set idx. d < length a \<Longrightarrow> take_indices a idx = Inr (map (\<lambda>i. a ! i) idx)"
  by (simp add: take_indices_def list_all_iff)

text \<open>
  \<^bold>\<open>C4.\<close> When at least one cell carries the subdomain id (and the dofs of the marked
  cells exist and index the function's vector), \<open>calculate_maximum_volume\<close> returns
  the maximum and \<open>calculate_minimum_volume\<close> the minimum of the function's values at
  the dofs of the cells marked with that id, each dof counted once.
\<close>

theorem calculate_extremum_volume:
  assumes "\<exists>c < length subdomains. subdomains ! c = subd_id"
    and "\<forall>d \<in> marked_dofs function subdomains subd_id. d < length (f_vector function)"
    and "marked_dofs function subdomains subd_id \<noteq> {}"
  shows "calculate_maximum_volume function subdomains subd_id
           = Inr (Max (marked_values function subdomains subd_id))
       \<and> calculate_minimum_volume function subdomains subd_id
           = Inr (Min (marked_values function subdomains subd_id))"
proof -
  from subd_dofs_marked [OF assms(1)] obtain dofs where
    d: "subd_dofs function subdomains subd_id = Inr dofs"
    and s: "set dofs = marked_dofs function subdomains subd_id" by blast
  let ?vals = "map (\<lambda>i. f_vector function ! i) dofs"
  have t: "take_indices (f_vector function) dofs = Inr ?vals"
    using assms(2) s by (intro take_indices_ok) simp
  have ne: "?vals \<noteq> []" using assms(3) s by auto
  have v: "set ?vals = marked_values function subdomains subd_id"
    using s by (simp add: marked_values_def)
  show ?thesis
    using d t np_max_Max [OF ne] np_min_Min [OF ne] v
    by (simp add: calculate_maximum_volume_def calculate_minimum_volume_def)
qed

lemma marked_dofs_SubsetIterator:
  "marked_dofs function subdomains subd_id
     = set (concat (map (f_cell_dofs function) (SubsetIterator subdomains subd_id)))"
  by (simp add: marked_dofs_def set_SubsetIterator)

lemma example_SubsetIterator: "SubsetIterator [7, 2, 7] 7 = [0, 2]"
  by (simp add: SubsetIterator_def upt_rec numeral_eq_Suc)

lemma example_marked_dofs: "marked_dofs example_function [7, 2, 7] 7 = {0, 1, 2, 3}"
  unfolding marked_dofs_SubsetIterator example_SubsetIterator
  by (auto simp: example_function_def)

lemma example_marked_values: "marked_values example_function [7, 2, 7] 7 = {3, 1, 4, 5}"
  unfolding marked_values_def example_marked_dofs
  by (simp add: example_function_def numeral_eq_Suc)

theorem calculate_extremum_volume_witness:
  "calculate_maximum_volume example_function [7, 2, 7] 7 = Inr 5
   \<and> calculate_minimum_volume example_function [7, 2, 7] 7 = Inr 1"
proof -
  have a: "\<exists>c < length [7, 2, 7::int]. [7, 2, 7] ! c = (7::int)"
    by (rule exI [of _ 0]) simp
  have b: "\<forall>d \<in> marked_dofs example_function [7, 2, 7] 7. d < length (f_vector example_function)"
    unfolding example_marked_dofs by (simp add: example_function_def)
  have c: "marked_dofs example_function [7, 2, 7] 7 \<noteq> {}"
    unfolding example_marked_dofs by simp
  from calculate_extremum_volume [OF a b c] show ?thesis
    unfolding example_marked_values by simp
qed

lemma append_each_Inr:
  "append_each f xs tab = Inr tab' \<Longrightarrow>
   \<exists>vs. tab' = tab @ vs \<and> list_all2 (\<lambda>v x. f x = Inr v) vs xs"
proof (induction xs arbitrary: tab)
  case Nil
  then show ?case by simp
next
  case (Cons x xs)
  from Cons.prems obtain v where v: "f x = Inr v" and r: "append_each f xs (tab @ [v]) = Inr tab'"
    by (auto split: sum.splits)
  from Cons.IH [OF r] obtain vs where "tab' = (tab @ [v]) @ vs" "list_all2 (\<lambda>v x. f x = Inr v) vs xs"
    by blast
  with v have "tab' = tab @ (v # vs) \<and> list_all2 (\<lambda>v x. f x = Inr v) (v # vs) (x # xs)" by simp
  then show ?case by blast
qed

lemma quantity_loop_Inr:
  assumes sel: "\<And>e ids f. body e = Inr (ids, f) \<Longrightarrow> sel e = Some ids"
  shows "quantity_loop body es tab = Inr tab' \<Longrightarrow>
   \<exists>vs. tab' = tab @ vs
     \<and> list_all2 (\<lambda>v (e, x). \<exists>ids f. body e = Inr (ids, f) \<and> f x = Inr v) vs
          (concat (map (\<lambda>e. map (Pair e) (case sel e of None \<Rightarrow> [] | Some xs \<Rightarrow> xs)) es))"
proof (induction es arbitrary: tab)
  case Nil
  then show ?case by simp
next
  case (Cons e es)
  from Cons.prems obtain ids f tab1 where b: "body e = Inr (ids, f)"
    and a: "append_each f ids tab = Inr tab1" and r: "quantity_loop body es tab1 = Inr tab'"
    by (auto split: sum.splits prod.splits)
  from append_each_Inr [OF a] obtain vs1 where vs1: "tab1 = tab @ vs1"
    "list_all2 (\<lambda>v x. f x = Inr v) vs1 ids" by blast
  from Cons.IH [OF r] obtain vs2 where vs2: "tab' = tab1 @ vs2"
    "list_all2 (\<lambda>v (e, x). \<exists>ids f. body e = Inr (ids, f) \<and> f x = Inr v) vs2
          (concat (map (\<lambda>e. map (Pair e) (case sel e of None \<Rightarrow> [] | Some xs \<Rightarrow> xs)) es))" by blast
  have "list_all2 (\<lambda>v (e, x). \<exists>ids f. body e = Inr (ids, f) \<and> f x = Inr v) vs1 (map (Pair e) ids)"
    using vs1(2) b by (auto simp: list_all2_map2 elim: list_all2_mono)
  with vs2(2) have "list_all2 (\<lambda>v (e, x). \<exists>ids f. body e = Inr (ids, f) \<and> f x = Inr v) (vs1 @ vs2)
          (concat (map (\<lambda>e. map (Pair e) (case sel e of None \<Rightarrow> [] | Some xs \<Rightarrow> xs)) (e # es)))"
    using sel [OF b] by (simp add: list_all2_appendI)
  moreover have "tab' = tab @ (vs1 @ vs2)" using vs1(1) vs2(1) by simp
  ultimately show ?case by blast
qed

lemma quantity_body_ids:
  "quantity_body assemble c kind e = Inr (ids, f) \<Longrightarrow> request_ids kind e = Some ids"
  by (cases kind)
     (auto simp: surface_flux_body_def average_volume_body_def extremum_volume_body_def
        total_volume_body_def total_surface_body_def
        split: sum.splits option.splits if_splits)

lemma header_body_ids:
  "header_body sel label e = Inr (ids, f) \<Longrightarrow> sel e = Some ids"
  by (auto simp: header_body_def split: option.splits)

lemma value_block_Inr:
  assumes "value_block assemble c d kind tab = Inr tab'"
  shows "\<exists>vs. tab' = tab @ vs \<and> list_all2 (\<lambda>v r. request_value assemble c r = Inr v) vs (requests_of d kind)"
proof (cases "map_of d (quantity_key kind)")
  case None
  with assms show ?thesis by (simp add: value_block_def quantity_block_def requests_of_def)
next
  case (Some item)
  show ?thesis
  proof (cases item)
    case Setting
    with Some assms show ?thesis by (simp add: value_block_def quantity_block_def)
  next
    case (Entries es)
    with Some assms have "quantity_loop (quantity_body assemble c kind) es tab = Inr tab'"
      by (simp add: value_block_def quantity_block_def)
    have ids: "\<And>e ids f. quantity_body assemble c kind e = Inr (ids, f) \<Longrightarrow> request_ids kind e = Some ids"
      by (rule quantity_body_ids)
    have loop: "quantity_loop (quantity_body assemble c kind) es tab = Inr tab'" by fact
    have "\<exists>vs. tab' = tab @ vs
      \<and> list_all2 (\<lambda>v (e, x). \<exists>ids f. quantity_body assemble c kind e = Inr (ids, f) \<and> f x = Inr v) vs
          (concat (map (\<lambda>e. map (Pair e) (case request_ids kind e of None \<Rightarrow> [] | Some xs \<Rightarrow> xs)) es))"
      by (rule quantity_loop_Inr [where sel = "request_ids kind", OF _ loop]) (rule ids)
    then obtain vs where vs: "tab' = tab @ vs"
      "list_all2 (\<lambda>v (e, x). \<exists>ids f. quantity_body assemble c kind e = Inr (ids, f) \<and> f x = Inr v) vs
          (concat (map (\<lambda>e. map (Pair e) (case request_ids kind e of None \<Rightarrow> [] | Some xs \<Rightarrow> xs)) es))"
      by blast
    have req: "requests_of d kind
        = map (\<lambda>(e, x). (kind, e, x))
            (concat (map (\<lambda>e. map (Pair e) (case request_ids kind e of None \<Rightarrow> [] | Some xs \<Rightarrow> xs)) es))"
      using Some Entries by (simp add: requests_of_def map_concat comp_def)
    have "list_all2 (\<lambda>v r. request_value assemble c r = Inr v) vs (requests_of d kind)"
      unfolding req list_all2_map2
      by (rule list_all2_mono [OF vs(2)]) (auto simp: request_value_def)
    with vs(1) show ?thesis by blast
  qed
qed

lemma header_block_Inr:
  assumes "header_block d kind header = Inr header'"
  shows "header' = header @ map column_title (requests_of d kind)"
proof (cases "map_of d (quantity_key kind)")
  case None
  with assms show ?thesis by (simp add: header_block_def quantity_block_def requests_of_def)
next
  case (Some item)
  show ?thesis
  proof (cases item)
    case Setting
    with Some assms show ?thesis by (simp add: header_block_def quantity_block_def)
  next
    case (Entries es)
    let ?body = "header_body (request_ids kind) (quantity_label kind)"
    from Some Entries assms have "quantity_loop ?body es header = Inr header'"
      by (simp add: header_block_def quantity_block_def)
    have ids: "\<And>e ids f. ?body e = Inr (ids, f) \<Longrightarrow> request_ids kind e = Some ids"
      by (rule header_body_ids)
    have loop: "quantity_loop ?body es header = Inr header'" by fact
    have "\<exists>vs. header' = header @ vs
      \<and> list_all2 (\<lambda>v (e, x). \<exists>ids f. ?body e = Inr (ids, f) \<and> f x = Inr v) vs
          (concat (map (\<lambda>e. map (Pair e) (case request_ids kind e of None \<Rightarrow> [] | Some xs \<Rightarrow> xs)) es))"
      by (rule quantity_loop_Inr [where sel = "request_ids kind", OF _ loop]) (rule ids)
    then obtain vs where vs: "header' = header @ vs"
      "list_all2 (\<lambda>v (e, x). \<exists>ids f. ?body e = Inr (ids, f) \<and> f x = Inr v) vs
          (concat (map (\<lambda>e. map (Pair e) (case request_ids kind e of None \<Rightarrow> [] | Some xs \<Rightarrow> xs)) es))"
      by blast
    have req: "requests_of d kind
        = map (\<lambda>(e, x). (kind, e, x))
            (concat (map (\<lambda>e. map (Pair e) (case request_ids kind e of None \<Rightarrow> [] | Some xs \<Rightarrow> xs)) es))"
      using Some Entries by (simp add: requests_of_def map_concat comp_def)
    have "list_all2 (\<lambda>v r. v = column_title r) vs (requests_of d kind)"
      unfolding req list_all2_map2
      by (rule list_all2_mono [OF vs(2)])
         (auto simp: column_title_def header_body_def split: option.splits)
    then have "vs = map column_title (requests_of d kind)"
      by (induction rule: list_all2_induct) simp_all
    with vs(1) show ?thesis by simp
  qed
qed

lemma header_columns_Inr:
  assumes "header_columns d header = Inr header'"
  shows "header' = header @ map column_title (requests d)"
proof -
  from assms obtain h1 h2 h3 h4 h5 where
    b: "header_block d SurfaceFlux header = Inr h1" "header_block d AverageVolume h1 = Inr h2"
       "header_block d MinimumVolume h2 = Inr h3" "header_block d MaximumVolume h3 = Inr h4"
       "header_block d TotalVolume h4 = Inr h5" "header_block d TotalSurface h5 = Inr header'"
    unfolding header_columns_def by (auto split: sum.splits)
  show ?thesis
    using b [THEN header_block_Inr] by (simp add: requests_def)
qed

lemma compute_quantities_Inr:
  assumes "compute_quantities assemble c d tab = Inr tab'"
  shows "\<exists>vs. tab' = tab @ vs \<and> list_all2 (\<lambda>v r. request_value assemble c r = Inr v) vs (requests d)"
proof -
  from assms obtain t1 t2 t3 t4 t5 where
    b: "value_block assemble c d SurfaceFlux tab = Inr t1" "value_block assemble c d AverageVolume t1 = Inr t2"
       "value_block assemble c d MinimumVolume t2 = Inr t3" "value_block assemble c d MaximumVolume t3 = Inr t4"
       "value_block assemble c d TotalVolume t4 = Inr t5" "value_block assemble c d TotalSurface t5 = Inr tab'"
    unfolding compute_quantities_def by (auto split: sum.splits)
  from b(1) [THEN value_block_Inr] obtain v1 where v1: "t1 = tab @ v1"
    "list_all2 (\<lambda>v r. request_value assemble c r = Inr v) v1 (requests_of d SurfaceFlux)" by blast
  from b(2) [THEN value_block_Inr] obtain v2 where v2: "t2 = t1 @ v2"
    "list_all2 (\<lambda>v r. request_value assemble c r = Inr v) v2 (requests_of d AverageVolume)" by blast
  from b(3) [THEN value_block_Inr] obtain v3 where v3: "t3 = t2 @ v3"
    "list_all2 (\<lambda>v r. request_value assemble c r = Inr v) v3 (requests_of d MinimumVolume)" by blast
  from b(4) [THEN value_block_Inr] obtain v4 where v4: "t4 = t3 @ v4"
    "list_all2 (\<lambda>v r. request_value assemble c r = Inr v) v4 (requests_of d MaximumVolume)" by blast
  from b(5) [THEN value_block_Inr] obtain v5 where v5: "t5 = t4 @ v5"
    "list_all2 (\<lambda>v r. request_value assemble c r = Inr v) v5 (requests_of d TotalVolume)" by blast
  from b(6) [THEN value_block_Inr] obtain v6 where v6: "tab' = t5 @ v6"
    "list_all2 (\<lambda>v r. request_value assemble c r = Inr v) v6 (requests_of d TotalSurface)" by blast
  have "tab' = tab @ (v1 @ v2 @ v3 @ v4 @ v5 @ v6)"
    using v1(1) v2(1) v3(1) v4(1) v5(1) v6(1) by simp
  moreover have "list_all2 (\<lambda>v r. request_value assemble c r = Inr v) (v1 @ v2 @ v3 @ v4 @ v5 @ v6) (requests d)"
    unfolding requests_def using v1(2) v2(2) v3(2) v4(2) v5(2) v6(2)
    by (simp add: list_all2_appendI)
  ultimately show ?thesis by blast
qed

lemma header_derived_quantities_Inr:
  assumes "header_derived_quantities quantity_types field_types n_traps params = Inr header"
    and "par_exports params = Some ex" "ex_derived_quantities ex = Some d"
  shows "header = ''t(s)'' # map column_title (requests d)"
proof -
  from assms have "header_columns d [''t(s)''] = Inr header"
    by (simp add: header_derived_quantities_def split: option.splits)
  from header_columns_Inr [OF this] show ?thesis by simp
qed

lemma derived_quantities_Inr:
  assumes "derived_quantities assemble params solutions markers properties = Inr tab"
    and "par_exports params = Some ex" "ex_derived_quantities ex = Some d"
  shows "\<exists>c. derived_quantities_setup params solutions markers properties = Inr c
     \<and> list_all2 (\<lambda>v r. request_value assemble c r = Inr v) tab (requests d)"
proof -
  from assms obtain c where c: "derived_quantities_setup params solutions markers properties = Inr c"
    and q: "compute_quantities assemble c d [] = Inr tab"
    by (auto simp: derived_quantities_def split: sum.splits)
  from compute_quantities_Inr [OF q] c show ?thesis by auto
qed

lemma derived_quantities_block_Inr:
  assumes "derived_quantities_block F simulation d res = Inr (rows, effects)"
  shows "sim_nb_iterations_between_compute_derived_quantities simulation \<noteq> 0
    \<and> (if sim_nb_iterations simulation mod sim_nb_iterations_between_compute_derived_quantities simulation = 0
        then \<exists>vs. derived_quantities (fe_assemble F) (sim_parameters simulation) res
                     [sim_volume_markers simulation, sim_surface_markers simulation]
                     [sim_D simulation, sim_thermal_cond simulation, sim_H simulation] = Inr vs
               \<and> rows = sim_derived_quantities_global simulation @ [CNum (sim_t simulation) # map CNum vs]
        else rows = sim_derived_quantities_global simulation)"
  using assms
  by (auto simp: derived_quantities_block_def py_divisible_def split: sum.splits if_splits bool.splits)

lemma run_post_processing_Inr:
  assumes "run_post_processing F simulation = Inr ((rows, dt), simulation', effects)"
    and "par_exports (sim_parameters simulation) = Some ex" "ex_derived_quantities ex = Some d"
  shows "\<exists>res1 eff. derived_quantities_block F simulation d (res1 @ [py_sum res1, sim_T simulation]) = Inr (rows, eff)
     \<and> sim_derived_quantities_global simulation' = rows"
  using assms
  by (auto simp: run_post_processing_def Let_def split: sum.splits if_splits prod.splits)

lemma str_int_examples: "str_int 1 = ''1''" "str_int 2 = ''2''" "str_int 7 = ''7''"
  by (simp_all add: str_int_def str_nat.simps digit_char_def)

lemma example_check:
  "check_keys_derived_quantities example_quantity_types example_field_types 0 example_dq = None"
  by (simp add: check_keys_derived_quantities_def example_dq_def example_quantity_types_def
      example_field_types_def non_quantity_types_def)

lemma example_header_columns: "header_columns example_dq [''t(s)''] = Inr example_header"
  by (simp add: header_columns_def header_block_def quantity_block_def example_dq_def
      header_body_def flux_label_def volume_label_def str_int_examples example_header_def)

lemma example_header_run:
  "header_derived_quantities example_quantity_types example_field_types 0 example_parameters
     = Inr example_header"
  by (simp add: header_derived_quantities_def example_parameters_def example_check
      example_header_columns)

lemma example_derived_quantities:
  "derived_quantities example_assemble example_parameters
     [Function example_function, Function example_function, Function example_function]
     [[7, 2, 7], [1, 2]] [Some 0, None, None] = Inr [1, 2, 2]"
  by (simp add: derived_quantities_def derived_quantities_setup_def py_index_def soret_of_def
      example_parameters_def example_dq_def compute_quantities_def value_block_def
      quantity_block_def surface_flux_body_def average_volume_body_def lookup_field_def
      field_to_sol_dict_def)

lemma example_run:
  "run_post_processing example_fenics example_simulation =
     Inr ((map CStr example_header # [[CNum 10, CNum 1, CNum 2, CNum 2]], 1),
          example_simulation\<lparr>sim_derived_quantities_global :=
             map CStr example_header # [[CNum 10, CNum 1, CNum 2, CNum 2]]\<rparr>,
          [])"
  by (simp add: run_post_processing_def example_simulation_def example_fenics_def
      derived_quantities_block_def py_divisible_def is_export_derived_quantities_def
      example_derived_quantities
      example_parameters_def [THEN arg_cong, of par_exports] )

lemma run_post_processing_rows:
  assumes run: "run_post_processing F simulation = Inr ((rows, dt), simulation', effects)"
    and ex: "par_exports (sim_parameters simulation) = Some ex" "ex_derived_quantities ex = Some d"
  shows "sim_nb_iterations_between_compute_derived_quantities simulation \<noteq> 0
    \<and> sim_derived_quantities_global simulation' = rows
    \<and> (if sim_nb_iterations simulation mod sim_nb_iterations_between_compute_derived_quantities simulation = 0
        then \<exists>res1 vs. derived_quantities (fe_assemble F) (sim_parameters simulation)
                     (res1 @ [py_sum res1, sim_T simulation])
                     [sim_volume_markers simulation, sim_surface_markers simulation]
                     [sim_D simulation, sim_thermal_cond simulation, sim_H simulation] = Inr vs
               \<and> rows = sim_derived_quantities_global simulation @ [CNum (sim_t simulation) # map CNum vs]
        else rows = sim_derived_quantities_global simulation)"
proof -
  from run_post_processing_Inr [OF run ex] obtain res1 eff where
    b: "derived_quantities_block F simulation d (res1 @ [py_sum res1, sim_T simulation]) = Inr (rows, eff)"
    and g: "sim_derived_quantities_global simulation' = rows" by blast
  from derived_quantities_block_Inr [OF b] g show ?thesis by (auto split: if_splits)
qed

text \<open>
  \<^bold>\<open>C8.\<close> When \<open>run_post_processing\<close> returns for a simulation whose exports ask for
  derived quantities, the list it returns first is the list of the simulation, and
  it is the list as it was with exactly one row appended, the time followed by the
  derived quantities computed in this call, when the number of iterations is
  divisible by \<open>nb_iterations_between_compute_derived_quantities\<close>, and the list as
  it was otherwise; the rows already there are neither changed nor removed.
\<close>

theorem run_post_processing_appends_one_row:
  assumes "run_post_processing F simulation = Inr ((rows, dt), simulation', effects)"
    and "par_exports (sim_parameters simulation) = Some ex" "ex_derived_quantities ex = Some d"
  shows "sim_derived_quantities_global simulation' = rows
    \<and> (if sim_nb_iterations simulation mod sim_nb_iterations_between_compute_derived_quantities simulation = 0
        then \<exists>res1 vs. derived_quantities (fe_assemble F) (sim_parameters simulation)
                     (res1 @ [py_sum res1, sim_T simulation])
                     [sim_volume_markers simulation, sim_surface_markers simulation]
                     [sim_D simulation, sim_thermal_cond simulation, sim_H simulation] = Inr vs
               \<and> rows = sim_derived_quantities_global simulation @ [CNum (sim_t simulation) # map CNum vs]
        else rows = sim_derived_quantities_global simulation)"
  using run_post_processing_rows [OF assms] by simp

theorem run_post_processing_appends_one_row_witness:
  "run_post_processing example_fenics example_simulation =
     Inr ((map CStr example_header # [[CNum 10, CNum 1, CNum 2, CNum 2]], 1),
          example_simulation\<lparr>sim_derived_quantities_global :=
             map CStr example_header # [[CNum 10, CNum 1, CNum 2, CNum 2]]\<rparr>,
          [])
   \<and> sim_derived_quantities_global (example_simulation\<lparr>sim_derived_quantities_global :=
             map CStr example_header # [[CNum 10, CNum 1, CNum 2, CNum 2]]\<rparr>)
       = sim_derived_quantities_global example_simulation @ [[CNum 10, CNum 1, CNum 2, CNum 2]]"
proof -
  have ex: "par_exports (sim_parameters example_simulation)
      = Some \<lparr>ex_derived_quantities = Some example_dq, ex_txt = False\<rparr>"
    "ex_derived_quantities \<lparr>ex_derived_quantities = Some example_dq, ex_txt = False\<rparr> = Some example_dq"
    by (simp_all add: example_simulation_def example_parameters_def)
  from run_post_processing_appends_one_row [OF example_run ex] example_run
  show ?thesis by (simp add: example_simulation_def)
qed

text \<open>
  \<^bold>\<open>C2.\<close> For parameters that ask for derived quantities, the header (when
  \<open>header_derived_quantities\<close> returns one) is \<open>t(s)\<close> followed by one title for each
  requested pair of a quantity and a surface or volume, the quantities in the order
  surface flux, average, minimum, maximum and total over a volume, total over a
  surface; \<open>derived_quantities\<close> yields the values of the same pairs in the same order,
  so the row that \<open>run_post_processing\<close> records, the time followed by these values,
  is as long as the header, and each value stands under the title of its pair.
\<close>

theorem header_matches_rows:
  assumes hdr: "header_derived_quantities quantity_types field_types n_traps (sim_parameters simulation)
                  = Inr header"
    and run: "run_post_processing F simulation = Inr ((rows, dt), simulation', effects)"
    and ex: "par_exports (sim_parameters simulation) = Some ex" "ex_derived_quantities ex = Some d"
    and due: "sim_nb_iterations simulation mod sim_nb_iterations_between_compute_derived_quantities simulation = 0"
  shows "header = ''t(s)'' # map column_title (requests d)
    \<and> (\<exists>res1 c vs.
          derived_quantities_setup (sim_parameters simulation) (res1 @ [py_sum res1, sim_T simulation])
              [sim_volume_markers simulation, sim_surface_markers simulation]
              [sim_D simulation, sim_thermal_cond simulation, sim_H simulation] = Inr c
        \<and> rows = sim_derived_quantities_global simulation @ [CNum (sim_t simulation) # map CNum vs]
        \<and> length (CNum (sim_t simulation) # map CNum vs) = length header
        \<and> list_all2 (\<lambda>v r. request_value (fe_assemble F) c r = Inr v) vs (requests d))"
proof -
  have h: "header = ''t(s)'' # map column_title (requests d)"
    by (rule header_derived_quantities_Inr [OF hdr ex])
  from run_post_processing_rows [OF run ex] due obtain res1 vs where
    dq: "derived_quantities (fe_assemble F) (sim_parameters simulation)
                     (res1 @ [py_sum res1, sim_T simulation])
                     [sim_volume_markers simulation, sim_surface_markers simulation]
                     [sim_D simulation, sim_thermal_cond simulation, sim_H simulation] = Inr vs"
    and rows: "rows = sim_derived_quantities_global simulation @ [CNum (sim_t simulation) # map CNum vs]"
    by auto
  from derived_quantities_Inr [OF dq ex] obtain c where
    c: "derived_quantities_setup (sim_parameters simulation) (res1 @ [py_sum res1, sim_T simulation])
              [sim_volume_markers simulation, sim_surface_markers simulation]
              [sim_D simulation, sim_thermal_cond simulation, sim_H simulation] = Inr c"
    and v: "list_all2 (\<lambda>v r. request_value (fe_assemble F) c r = Inr v) vs (requests d)" by blast
  from v have "length vs = length (requests d)" by (rule list_all2_lengthD)
  with h have "length (CNum (sim_t simulation) # map CNum vs) = length header" by simp
  with h c rows v show ?thesis by blast
qed

lemma example_requests:
  "requests example_dq =
     [(SurfaceFlux, \<lparr>e_field = Some (FieldStr ''solute''), e_surfaces = Some [1, 2], e_volumes = None\<rparr>, 1),
      (SurfaceFlux, \<lparr>e_field = Some (FieldStr ''solute''), e_surfaces = Some [1, 2], e_volumes = None\<rparr>, 2),
      (AverageVolume, \<lparr>e_field = Some (FieldStr ''retention''), e_surfaces = None, e_volumes = Some [7]\<rparr>, 7)]"
  by (simp add: requests_def requests_of_def example_dq_def)

theorem header_matches_rows_witness:
  "header_derived_quantities example_quantity_types example_field_types 0
       (sim_parameters example_simulation) = Inr example_header
   \<and> example_header = ''t(s)'' # map column_title (requests example_dq)
   \<and> (\<exists>dt simulation' effects.
         run_post_processing example_fenics example_simulation
           = Inr ((sim_derived_quantities_global example_simulation @ [[CNum 10, CNum 1, CNum 2, CNum 2]], dt),
                  simulation', effects))
   \<and> length [CNum 10, CNum 1, CNum 2, CNum (2::real)] = length example_header"
proof -
  have hdr: "header_derived_quantities example_quantity_types example_field_types 0
       (sim_parameters example_simulation) = Inr example_header"
    using example_header_run by (simp add: example_simulation_def)
  have ex: "par_exports (sim_parameters example_simulation)
      = Some \<lparr>ex_derived_quantities = Some example_dq, ex_txt = False\<rparr>"
    "ex_derived_quantities \<lparr>ex_derived_quantities = Some example_dq, ex_txt = False\<rparr> = Some example_dq"
    by (simp_all add: example_simulation_def example_parameters_def)
  have due: "sim_nb_iterations example_simulation
      mod sim_nb_iterations_between_compute_derived_quantities example_simulation = 0"
    by (simp add: example_simulation_def)
  from header_matches_rows [OF hdr example_run ex due]
  have "example_header = ''t(s)'' # map column_title (requests example_dq)" by blast
  moreover have "run_post_processing example_fenics example_simulation
           = Inr ((sim_derived_quantities_global example_simulation @ [[CNum 10, CNum 1, CNum 2, CNum 2]], 1),
                  example_simulation\<lparr>sim_derived_quantities_global :=
                     map CStr example_header # [[CNum 10, CNum 1, CNum 2, CNum 2]]\<rparr>, [])"
    using example_run by (simp add: example_simulation_def)
  moreover have "length [CNum 10, CNum 1, CNum 2, CNum (2::real)] = length example_header"
    by (simp add: example_header_def)
  ultimately show ?thesis using hdr by blast
qed

lemma average_request_value:
  assumes "request_value assemble c (AverageVolume, e, vol) = Inr v"
  shows "\<exists>k sol. e_field e = Some k \<and> c_field_to_sol c (str_field k) = Some sol
     \<and> assemble (UnitVolumeForm (c_volume_markers c) vol) \<noteq> 0
     \<and> v = assemble (VolumeForm sol (c_volume_markers c) vol)
             / assemble (UnitVolumeForm (c_volume_markers c) vol)"
  using assms
  by (auto simp: request_value_def average_volume_body_def lookup_field_def
      split: sum.splits option.splits if_splits)

lemma derived_quantities_setup_Inr:
  assumes "derived_quantities_setup params solutions markers properties = Inr c"
  shows "py_index markers 0 = Inr (c_volume_markers c)
     \<and> (\<exists>solute ret T. py_index solutions 0 = Inr solute
           \<and> py_index solutions (int (length solutions) - 2) = Inr ret
           \<and> py_index solutions (int (length solutions) - 1) = Inr T
           \<and> c_field_to_sol c = field_to_sol_dict solute ret T solutions)"
  using assms
  by (auto simp: derived_quantities_setup_def split: sum.splits prod.splits)

lemma digit_value_digit_char: "d < 10 \<Longrightarrow> digit_value (digit_char d) = d"
proof -
  assume "d < 10"
  then consider "d = 0" | "d = 1" | "d = 2" | "d = 3" | "d = 4" | "d = 5" | "d = 6" | "d = 7"
    | "d = 8" | "d = 9" by atomize_elim arith
  then show ?thesis
    by cases (simp_all add: digit_value_def digit_char_def)
qed

lemma digit_char_digit: "d < 10 \<Longrightarrow> digit_char d \<in> set ''0123456789''"
proof -
  assume "d < 10"
  then have "d < length ''0123456789''" by simp
  then show ?thesis unfolding digit_char_def by (rule nth_mem)
qed

lemma str_nat_digits: "set (str_nat n) \<subseteq> set ''0123456789''"
proof (induction n rule: str_nat.induct)
  case (1 n)
  show ?case
  proof (cases "n < 10")
    case True
    then show ?thesis using digit_char_digit [of n] by (subst str_nat.simps) simp
  next
    case False
    have "n mod 10 < 10" by simp
    from digit_char_digit [OF this] 1 [OF False] False
    show ?thesis by (subst str_nat.simps) simp
  qed
qed

lemma int_of_str_str_nat: "int_of_str (str_nat n) = int n"
proof (induction n rule: str_nat.induct)
  case (1 n)
  show ?case
  proof (cases "n < 10")
    case True
    then have "str_nat n = [digit_char n]" by (subst str_nat.simps) simp
    with True show ?thesis by (simp add: int_of_str_def digit_value_digit_char)
  next
    case False
    have d: "digit_value (digit_char (n mod 10)) = n mod 10"
      by (rule digit_value_digit_char) simp
    from 1 [OF False] have ih: "foldl (\<lambda>n c. 10 * n + digit_value c) 0 (str_nat (n div 10)) = n div 10"
      by (simp add: int_of_str_def)
    from False have "str_nat n = str_nat (n div 10) @ [digit_char (n mod 10)]"
      by (subst str_nat.simps) simp
    then have "int_of_str (str_nat n)
        = int (10 * foldl (\<lambda>n c. 10 * n + digit_value c) 0 (str_nat (n div 10))
                + digit_value (digit_char (n mod 10)))"
      by (simp only: int_of_str_def foldl_append foldl.simps)
    also have "\<dots> = int (10 * (n div 10) + n mod 10)" by (simp only: ih d)
    also have "\<dots> = int n" by simp
    finally show ?thesis .
  qed
qed

lemma str_nat_inj: "str_nat a = str_nat b \<Longrightarrow> a = b"
proof -
  assume e: "str_nat a = str_nat b"
  have "int a = int_of_str (str_nat a)" by (simp only: int_of_str_str_nat)
  also have "\<dots> = int_of_str (str_nat b)" by (simp only: e)
  also have "\<dots> = int b" by (rule int_of_str_str_nat)
  finally show "a = b" by simp
qed

lemma str_nat_not_name:
  "str_nat n \<noteq> ''solute''" "str_nat n \<noteq> ''retention''" "str_nat n \<noteq> ''T''"
  "str_nat n \<noteq> CHR ''-'' # s"
  using str_nat_digits [of n] by auto

lemma find_str_nat:
  "find (\<lambda>i. str_nat i = str_nat a) xs = (if a \<in> set xs then Some a else None)"
  by (induction xs) (auto dest: str_nat_inj)

lemma find_not_str_nat:
  "(\<And>i. str_nat i \<noteq> s) \<Longrightarrow> find (\<lambda>i. str_nat i = s) xs = None"
  by (induction xs) auto

lemma fold_str_nat_update:
  "distinct xs \<Longrightarrow>
   fold (\<lambda>i m. m(str_nat i \<mapsto> val i)) xs m0 s
     = (case find (\<lambda>i. str_nat i = s) xs of Some i \<Rightarrow> Some (val i) | None \<Rightarrow> m0 s)"
proof (induction xs arbitrary: m0)
  case Nil
  then show ?case by simp
next
  case (Cons x xs)
  from Cons.prems have d: "distinct xs" and x: "x \<notin> set xs" by simp_all
  have "fold (\<lambda>i m. m(str_nat i \<mapsto> val i)) (x # xs) m0 s
      = fold (\<lambda>i m. m(str_nat i \<mapsto> val i)) xs (m0(str_nat x \<mapsto> val x)) s"
    by (simp only: fold_simps)
  also have "\<dots> = (case find (\<lambda>i. str_nat i = s) xs of
                      Some i \<Rightarrow> Some (val i) | None \<Rightarrow> (m0(str_nat x \<mapsto> val x)) s)"
    by (rule Cons.IH [OF d])
  also have "\<dots> = (case find (\<lambda>i. str_nat i = s) (x # xs) of
                      Some i \<Rightarrow> Some (val i) | None \<Rightarrow> m0 s)"
  proof (cases "str_nat x = s")
    case True
    then have "find (\<lambda>i. str_nat i = s) xs = None"
      using x find_str_nat [of x xs] by auto
    with True show ?thesis by simp
  next
    case False
    then show ?thesis by (simp split: option.splits)
  qed
  finally show ?case .
qed

lemma field_to_sol_dict_lookup:
  "field_to_sol_dict solute ret T solutions s
     = (case find (\<lambda>i. str_nat i = s) [1..<length solutions - 2] of
          Some i \<Rightarrow> Some (solutions ! i)
        | None \<Rightarrow> [''solute'' \<mapsto> solute, ''retention'' \<mapsto> ret, ''T'' \<mapsto> T] s)"
  unfolding field_to_sol_dict_def by (rule fold_str_nat_update) simp

lemma py_index_solutions:
  "py_index solutions 0 = Inr solute \<Longrightarrow> solutions \<noteq> [] \<and> solute = solutions ! 0"
  "py_index solutions (int (length solutions) - 2) = Inr ret \<Longrightarrow> ret = solutions ! (length solutions - 2)"
  "py_index solutions (int (length solutions) - 1) = Inr T \<Longrightarrow> T = solutions ! (length solutions - 1)"
  by (auto simp: py_index_def Let_def nat_diff_distrib split: if_splits)

lemma field_to_sol_dict_solution_of_field:
  assumes "py_index solutions 0 = Inr solute"
    and "py_index solutions (int (length solutions) - 2) = Inr ret"
    and "py_index solutions (int (length solutions) - 1) = Inr T"
  shows "field_to_sol_dict solute ret T solutions (str_field k) = solution_of_field solutions k"
proof -
  from py_index_solutions(1) [OF assms(1)] py_index_solutions(2) [OF assms(2)]
    py_index_solutions(3) [OF assms(3)]
  have ne: "solutions \<noteq> []" and eq: "solute = solutions ! 0" "ret = solutions ! (length solutions - 2)"
    "T = solutions ! (length solutions - 1)" by simp_all
  show ?thesis
  proof (cases k)
    case (FieldStr s)
    have "find (\<lambda>i. str_nat i = s) [1..<length solutions - 2] = None"
      if "s = ''solute'' \<or> s = ''retention'' \<or> s = ''T''"
      using that str_nat_not_name(1-3) by (intro find_not_str_nat) auto
    then show ?thesis
      using FieldStr ne eq
      by (auto simp: field_to_sol_dict_lookup solution_of_field_def split: option.splits)
  next
    case (FieldInt i)
    show ?thesis
    proof (cases "i < 0")
      case True
      then have s: "str_field k = CHR ''-'' # str_nat (nat (- i))" using FieldInt by (simp add: str_int_def)
      have "find (\<lambda>j. str_nat j = CHR ''-'' # str_nat (nat (- i))) [1..<length solutions - 2] = None"
        by (intro find_not_str_nat) (rule str_nat_not_name(4))
      with True FieldInt ne show ?thesis
        unfolding s by (simp add: field_to_sol_dict_lookup solution_of_field_def)
    next
      case False
      then have s: "str_field k = str_nat (nat i)" using FieldInt by (simp add: str_int_def)
      have m0: "[''solute'' \<mapsto> solute, ''retention'' \<mapsto> ret, ''T'' \<mapsto> T] (str_nat (nat i)) = None"
        using str_nat_not_name(1-3) [of "nat i"] by simp
      have r: "nat i \<in> set [1..<length solutions - 2] \<longleftrightarrow> 1 \<le> i \<and> i < int (length solutions) - 2"
        using False by auto
      from False FieldInt ne m0 r show ?thesis
        unfolding s by (simp add: field_to_sol_dict_lookup find_str_nat solution_of_field_def)
    qed
  qed
qed

lemma average_requests:
  "requests average_dq =
     [(AverageVolume, \<lparr>e_field = Some (FieldStr ''solute''), e_surfaces = None, e_volumes = Some [7]\<rparr>, 7),
      (AverageVolume, \<lparr>e_field = Some (FieldInt 1), e_surfaces = None, e_volumes = Some [7]\<rparr>, 7),
      (AverageVolume, \<lparr>e_field = Some (FieldStr ''retention''), e_surfaces = None, e_volumes = Some [7]\<rparr>, 7),
      (AverageVolume, \<lparr>e_field = Some (FieldStr ''T''), e_surfaces = None, e_volumes = Some [7]\<rparr>, 7)]"
  by (simp add: requests_def requests_of_def average_dq_def)

lemma average_solutions_fields:
  "solution_of_field average_solutions (FieldStr ''solute'') = Some (Function (constant_function 1))"
  "solution_of_field average_solutions (FieldInt 1) = Some (Function (constant_function 2))"
  "solution_of_field average_solutions (FieldStr ''retention'')
     = Some (UflSum (Function (constant_function 1)) (Function (constant_function 2)))"
  "solution_of_field average_solutions (FieldStr ''T'') = Some (Function (constant_function 5))"
  by (simp_all add: solution_of_field_def average_solutions_def)

lemma average_derived_quantities:
  "derived_quantities integrating_assemble average_parameters average_solutions
     [[7, 2, 7], [1, 2]] [Some 0, None, None] = Inr [1, 2, 3, 5]"
  by (simp add: derived_quantities_def derived_quantities_setup_def py_index_def soret_of_def
      average_parameters_def average_dq_def average_solutions_def compute_quantities_def
      value_block_def quantity_block_def average_volume_body_def lookup_field_def
      field_to_sol_dict_def str_int_examples str_nat.simps digit_char_def constant_function_def)

text \<open>
  \<^bold>\<open>C5.\<close> In what \<open>derived_quantities\<close> returns, the value of a request for the average
  of a field over a volume is \<open>assemble(sol*dx(vol))\<close> divided by
  \<open>assemble(1*dx(vol))\<close>, where \<open>sol\<close> is the solution that the requested field
  denotes (the first of the solutions for \<open>solute\<close>, the last but one for
  \<open>retention\<close>, the last for \<open>T\<close>, the one at position \<open>i\<close> for the trap \<open>i\<close>) and
  \<open>dx\<close> the measure of the volume markers: the integral of the field over the
  volume divided by the measure of the volume, which is not zero.
\<close>

theorem average_volume_value:
  assumes "derived_quantities assemble params solutions markers properties = Inr tab"
    and "par_exports params = Some ex" "ex_derived_quantities ex = Some d"
    and "i < length (requests d)" "requests d ! i = (AverageVolume, e, vol)"
  shows "\<exists>k sol volume_markers.
      e_field e = Some k
    \<and> solution_of_field solutions k = Some sol
    \<and> py_index markers 0 = Inr volume_markers
    \<and> assemble (UnitVolumeForm volume_markers vol) \<noteq> 0
    \<and> tab ! i = assemble (VolumeForm sol volume_markers vol) / assemble (UnitVolumeForm volume_markers vol)"
proof -
  from derived_quantities_Inr [OF assms(1-3)] obtain c where
    c: "derived_quantities_setup params solutions markers properties = Inr c"
    and v: "list_all2 (\<lambda>v r. request_value assemble c r = Inr v) tab (requests d)" by blast
  from v assms(4,5) have "request_value assemble c (AverageVolume, e, vol) = Inr (tab ! i)"
    by (auto dest: list_all2_nthD2)
  from average_request_value [OF this] obtain k sol where
    a: "e_field e = Some k" "c_field_to_sol c (str_field k) = Some sol"
       "assemble (UnitVolumeForm (c_volume_markers c) vol) \<noteq> 0"
       "tab ! i = assemble (VolumeForm sol (c_volume_markers c) vol)
             / assemble (UnitVolumeForm (c_volume_markers c) vol)" by blast
  from derived_quantities_setup_Inr [OF c] obtain solute ret T where
    m: "py_index markers 0 = Inr (c_volume_markers c)"
    and s: "py_index solutions 0 = Inr solute"
      "py_index solutions (int (length solutions) - 2) = Inr ret"
      "py_index solutions (int (length solutions) - 1) = Inr T"
    and f: "c_field_to_sol c = field_to_sol_dict solute ret T solutions" by blast
  from a(2) have "solution_of_field solutions k = Some sol"
    unfolding f field_to_sol_dict_solution_of_field [OF s] .
  with a m show ?thesis by blast
qed

theorem average_volume_value_witness:
  "derived_quantities integrating_assemble average_parameters average_solutions
     [[7, 2, 7], [1, 2]] [Some 0, None, None] = Inr [1, 2, 3, 5]
   \<and> requests average_dq ! 1
       = (AverageVolume, \<lparr>e_field = Some (FieldInt 1), e_surfaces = None, e_volumes = Some [7]\<rparr>, 7)
   \<and> solution_of_field average_solutions (FieldInt 1) = Some (Function (constant_function 2))
   \<and> [1, 2, 3, 5 :: real] ! 1
       = integrating_assemble (VolumeForm (Function (constant_function 2)) [7, 2, 7] 7)
           / integrating_assemble (UnitVolumeForm [7, 2, 7] 7)
   \<and> requests average_dq ! 2
       = (AverageVolume, \<lparr>e_field = Some (FieldStr ''retention''), e_surfaces = None, e_volumes = Some [7]\<rparr>, 7)
   \<and> solution_of_field average_solutions (FieldStr ''retention'')
       = Some (UflSum (Function (constant_function 1)) (Function (constant_function 2)))
   \<and> [1, 2, 3, 5 :: real] ! 2
       = integrating_assemble
           (VolumeForm (UflSum (Function (constant_function 1)) (Function (constant_function 2))) [7, 2, 7] 7)
           / integrating_assemble (UnitVolumeForm [7, 2, 7] 7)"
proof -
  have ex: "par_exports average_parameters = Some \<lparr>ex_derived_quantities = Some average_dq, ex_txt = False\<rparr>"
    "ex_derived_quantities \<lparr>ex_derived_quantities = Some average_dq, ex_txt = False\<rparr> = Some average_dq"
    by (simp_all add: average_parameters_def)
  have i: "1 < length (requests average_dq)" "2 < length (requests average_dq)"
    by (simp_all add: average_requests)
  have r1: "requests average_dq ! 1
       = (AverageVolume, \<lparr>e_field = Some (FieldInt 1), e_surfaces = None, e_volumes = Some [7]\<rparr>, 7)"
    by (simp add: average_requests)
  have r2: "requests average_dq ! 2
       = (AverageVolume, \<lparr>e_field = Some (FieldStr ''retention''), e_surfaces = None, e_volumes = Some [7]\<rparr>, 7)"
    by (simp add: average_requests)
  from average_volume_value [OF average_derived_quantities ex i(1) r1]
  have v1: "[1, 2, 3, 5 :: real] ! 1
       = integrating_assemble (VolumeForm (Function (constant_function 2)) [7, 2, 7] 7)
           / integrating_assemble (UnitVolumeForm [7, 2, 7] 7)"
    by (auto simp: average_solutions_fields py_index_def)
  from average_volume_value [OF average_derived_quantities ex i(2) r2]
  have v2: "[1, 2, 3, 5 :: real] ! 2
       = integrating_assemble
           (VolumeForm (UflSum (Function (constant_function 1)) (Function (constant_function 2))) [7, 2, 7] 7)
           / integrating_assemble (UnitVolumeForm [7, 2, 7] 7)"
    by (auto simp: average_solutions_fields py_index_def)
  from average_derived_quantities r1 r2 v1 v2 average_solutions_fields(2,3)
  show ?thesis by (intro conjI)
qed

lemma retention_values_example: "retention_values [example_mobile, example_trapped] [1] 1 = {1}"
proof (rule equalityI; rule subsetI)
  fix x assume "x \<in> retention_values [example_mobile, example_trapped] [1] 1"
  then show "x \<in> {1}"
    unfolding retention_values_def example_mobile_def example_trapped_def
    by (auto simp: less_Suc_eq numeral_2_eq_2 numeral_3_eq_3)
next
  fix x :: real assume "x \<in> {1}"
  then have x: "x = 1" by simp
  have "\<exists>c j. x = sum_list (map (\<lambda>f. f_vector f ! (f_cell_dofs f c ! j)) [example_mobile, example_trapped])
      \<and> c < length [1::int] \<and> [1::int] ! c = 1 \<and> j < length (f_cell_dofs (hd [example_mobile, example_trapped]) c)"
    unfolding x by (rule exI [of _ 0], rule exI [of _ 0]) (simp add: example_mobile_def example_trapped_def)
  then show "x \<in> retention_values [example_mobile, example_trapped] [1] 1"
    unfolding retention_values_def by blast
qed

lemma example_extrema:
  "calculate_minimum_volume example_mobile [1] 1 = Inr 0"
  "calculate_minimum_volume example_trapped [1] 1 = Inr 0"
  "calculate_maximum_volume example_mobile [1] 1 = Inr 1"
  "calculate_maximum_volume example_trapped [1] 1 = Inr 1"
  by (simp_all add: calculate_minimum_volume_def calculate_maximum_volume_def subd_dofs_def
      SubsetIterator_def np_hstack_def np_unique_def take_indices_def
      example_mobile_def example_trapped_def)

text \<open>
  \<^bold>\<open>C3.\<close> For the field \<open>retention\<close> the code adds up the minima (the maxima) of the
  mobile and the trapped concentrations, each taken on its own. With the mobile
  concentration 0 and 1 and the trapped concentration 1 and 0 at the two nodes of
  the only cell, the retention is 1 at both nodes, so its minimum and its maximum
  over the volume are 1; the values reported as minimum and maximum of the
  retention are 0 and 2.
\<close>

theorem retention_extrema_are_sums_of_extrema:
  "derived_quantities example_assemble retention_request retention_solutions [[1], []]
       [Some 0, None, None] = Inr [0, 2]
   \<and> Min (retention_values [example_mobile, example_trapped] [1] 1) = 1
   \<and> Max (retention_values [example_mobile, example_trapped] [1] 1) = 1"
proof -
  have "derived_quantities example_assemble retention_request retention_solutions [[1], []]
       [Some 0, None, None] = Inr [0, 2]"
    by (simp add: derived_quantities_def derived_quantities_setup_def py_index_def soret_of_def
      retention_request_def retention_solutions_def compute_quantities_def value_block_def
      quantity_block_def extremum_volume_body_def example_extrema)
  then show ?thesis by (simp add: retention_values_example)
qed

end
